theory Spec2Isabelle
  imports Complex_Main "HOL-Library.AList"
begin

section \<open>Sentinel-2 product calculation (Sentinel2/A1\_sentinel2\_products.py)\<close>

text \<open>
  A shallow embedding of the band-math and mosaic pipeline of
  \<^verbatim>\<open>src/Sentinel2/A1_sentinel2_products.py\<close>: the four index calculators on float32
  grids, the path resolver \<^verbatim>\<open>getRequiredBandsPaths\<close>, and the orchestrator
  \<^verbatim>\<open>calculateProducts\<close> with its tile cache and mosaic stage.
\<close>

subsection \<open>float32 pixels\<close>

text \<open>
  \<^verbatim>\<open>openRasterOneBand\<close> converts every band to float32, so the calculators work on
  float32 arrays. A pixel is a finite number, an infinity or NaN. Arithmetic on pixels
  is the exact operation on the reals followed by rounding to the nearest float32 (ties
  to even), as IEEE 754 prescribes; results beyond the float32 range become infinities.
  The sign of a zero is not kept: \<^verbatim>\<open>-0.0 == 0.0\<close> holds in numpy, and the only
  operation that could tell the two apart is a division by zero, where the model
  takes the zero as positive.
\<close>

datatype fl = Fin real | PInf | NInf | NaN

definition rne :: "real \<Rightarrow> int" where
  \<comment> \<open>round to the nearest integer, a tie to the even one\<close>
  "rne x = (let f = \<lfloor>x\<rfloor>; d = x - of_int f in
     if d < 1 / 2 then f else if 1 / 2 < d then f + 1 else if even f then f else f + 1)"

fun scale_up :: "nat \<Rightarrow> real \<Rightarrow> real \<Rightarrow> real" where
  "scale_up n s a = (if n = 0 \<or> a < 2 ^ 24 * s then s else scale_up (n - 1) (2 * s) a)"

fun scale_down :: "nat \<Rightarrow> real \<Rightarrow> real \<Rightarrow> real" where
  "scale_down n s a = (if n = 0 \<or> 2 ^ 23 * s \<le> a then s else scale_down (n - 1) (s / 2) a)"

declare scale_up.simps [simp del] scale_down.simps [simp del]

definition ulp :: "real \<Rightarrow> real" where
  \<comment> \<open>the spacing of float32 numbers at magnitude \<open>a\<close>: the least power of two \<open>s\<close>
      between \<open>2 ^ -149\<close> and \<open>2 ^ 104\<close> with \<open>a < 2 ^ 24 * s\<close> (\<open>2 ^ 104\<close> when there is none)\<close>
  "ulp a = (if 2 ^ 24 \<le> a then scale_up 104 1 a else scale_down 149 1 a)"

definition f32 :: "real \<Rightarrow> fl" where
  \<comment> \<open>rounding of a real to float32: 24 bits of precision, overflow to an infinity\<close>
  "f32 x = (let a = \<bar>x\<bar>; s = ulp a; m = of_int (rne (a / s)) * s in
     if 2 ^ 128 \<le> m then (if x < 0 then NInf else PInf)
     else Fin (if x < 0 then - m else m))"

definition is_neg :: "fl \<Rightarrow> bool" where
  "is_neg x = (case x of Fin a \<Rightarrow> a < 0 | NInf \<Rightarrow> True | _ \<Rightarrow> False)"

definition inf_of :: "bool \<Rightarrow> fl" where
  "inf_of neg = (if neg then NInf else PInf)"

fun fl_add :: "fl \<Rightarrow> fl \<Rightarrow> fl" where
  "fl_add NaN _ = NaN"
| "fl_add _ NaN = NaN"
| "fl_add (Fin a) (Fin b) = f32 (a + b)"
| "fl_add PInf NInf = NaN"
| "fl_add NInf PInf = NaN"
| "fl_add PInf _ = PInf"
| "fl_add _ PInf = PInf"
| "fl_add NInf _ = NInf"
| "fl_add _ NInf = NInf"

fun fl_neg :: "fl \<Rightarrow> fl" where
  "fl_neg (Fin a) = Fin (- a)"
| "fl_neg PInf = NInf"
| "fl_neg NInf = PInf"
| "fl_neg NaN = NaN"

definition fl_sub :: "fl \<Rightarrow> fl \<Rightarrow> fl" where
  "fl_sub x y = fl_add x (fl_neg y)"

fun fl_mul :: "fl \<Rightarrow> fl \<Rightarrow> fl" where
  "fl_mul NaN _ = NaN"
| "fl_mul _ NaN = NaN"
| "fl_mul (Fin a) (Fin b) = f32 (a * b)"
| "fl_mul (Fin a) y = (if a = 0 then NaN else inf_of ((a < 0) \<noteq> is_neg y))"
| "fl_mul x (Fin b) = (if b = 0 then NaN else inf_of (is_neg x \<noteq> (b < 0)))"
| "fl_mul x y = inf_of (is_neg x \<noteq> is_neg y)"

fun fl_div :: "fl \<Rightarrow> fl \<Rightarrow> fl" where
  "fl_div NaN _ = NaN"
| "fl_div _ NaN = NaN"
| "fl_div (Fin a) (Fin b) =
     (if b = 0 then (if a = 0 then NaN else inf_of (a < 0)) else f32 (a / b))"
| "fl_div (Fin a) y = Fin 0"
| "fl_div x (Fin b) = inf_of (is_neg x \<noteq> (b < 0))"
| "fl_div x y = NaN"

fun fl_lt :: "fl \<Rightarrow> fl \<Rightarrow> bool" where
  "fl_lt NaN _ = False"
| "fl_lt _ NaN = False"
| "fl_lt (Fin a) (Fin b) = (a < b)"
| "fl_lt NInf NInf = False"
| "fl_lt NInf _ = True"
| "fl_lt _ NInf = False"
| "fl_lt PInf _ = False"
| "fl_lt _ PInf = True"

definition fl_gt :: "fl \<Rightarrow> fl \<Rightarrow> bool" where
  "fl_gt x y = fl_lt y x"

definition fl_eq :: "fl \<Rightarrow> fl \<Rightarrow> bool" where
  \<comment> \<open>\<^verbatim>\<open>==\<close> on floats: NaN equals nothing, itself included\<close>
  "fl_eq x y = (x \<noteq> NaN \<and> y \<noteq> NaN \<and> x = y)"

definition isnan :: "fl \<Rightarrow> bool" where
  "isnan x = (x = NaN)"

definition isinf :: "fl \<Rightarrow> bool" where
  "isinf x = (x = PInf \<or> x = NInf)"

subsection \<open>Grids and the numpy operations the calculators use\<close>

text \<open>
  A grid is a two-dimensional array, a list of rows. Operations between two arrays
  are element-wise. For two-dimensional arrays whose shapes differ numpy either
  refuses the arithmetic (the shapes do not broadcast) or refuses a boolean mask
  that does not have the shape of the broadcast result; both are exceptions, and the
  calculators below return \<open>ShapeError\<close> for them.
\<close>

type_synonym 'a grid = "'a list list"

definition shape :: "'a grid \<Rightarrow> nat list" where
  "shape g = map length g"

definition grid_map :: "('a \<Rightarrow> 'b) \<Rightarrow> 'a grid \<Rightarrow> 'b grid" where
  "grid_map f g = map (map f) g"

definition grid_map2 :: "('a \<Rightarrow> 'b \<Rightarrow> 'c) \<Rightarrow> 'a grid \<Rightarrow> 'b grid \<Rightarrow> 'c grid" where
  "grid_map2 f a b = map2 (map2 f) a b"

definition np_div_s :: "fl grid \<Rightarrow> fl \<Rightarrow> fl grid" where
  \<comment> \<open>\<^verbatim>\<open>A / c\<close>, an array by a scalar\<close>
  "np_div_s A c = grid_map (\<lambda>x. fl_div x c) A"

definition np_mul_s :: "fl \<Rightarrow> fl grid \<Rightarrow> fl grid" where
  \<comment> \<open>\<^verbatim>\<open>c * A\<close>\<close>
  "np_mul_s c A = grid_map (\<lambda>x. fl_mul c x) A"

definition np_add_s :: "fl grid \<Rightarrow> fl \<Rightarrow> fl grid" where
  \<comment> \<open>\<^verbatim>\<open>A + c\<close>\<close>
  "np_add_s A c = grid_map (\<lambda>x. fl_add x c) A"

definition np_add :: "fl grid \<Rightarrow> fl grid \<Rightarrow> fl grid" where
  "np_add A B = grid_map2 fl_add A B"

definition np_sub :: "fl grid \<Rightarrow> fl grid \<Rightarrow> fl grid" where
  "np_sub A B = grid_map2 fl_sub A B"

definition np_div :: "fl grid \<Rightarrow> fl grid \<Rightarrow> fl grid" where
  "np_div A B = grid_map2 fl_div A B"

definition np_isnan :: "fl grid \<Rightarrow> bool grid" where
  "np_isnan A = grid_map isnan A"

definition np_isinf :: "fl grid \<Rightarrow> bool grid" where
  "np_isinf A = grid_map isinf A"

definition np_eq_s :: "fl grid \<Rightarrow> fl \<Rightarrow> bool grid" where
  \<comment> \<open>\<^verbatim>\<open>A == c\<close>\<close>
  "np_eq_s A c = grid_map (\<lambda>x. fl_eq x c) A"

definition np_gt_s :: "fl grid \<Rightarrow> fl \<Rightarrow> bool grid" where
  \<comment> \<open>\<^verbatim>\<open>A > c\<close>\<close>
  "np_gt_s A c = grid_map (\<lambda>x. fl_gt x c) A"

definition np_lt_s :: "fl grid \<Rightarrow> fl \<Rightarrow> bool grid" where
  \<comment> \<open>\<^verbatim>\<open>A < c\<close>\<close>
  "np_lt_s A c = grid_map (\<lambda>x. fl_lt x c) A"

definition np_setmask :: "fl grid \<Rightarrow> bool grid \<Rightarrow> fl \<Rightarrow> fl grid" where
  \<comment> \<open>\<^verbatim>\<open>A[M] = v\<close>: the array after the assignment\<close>
  "np_setmask A M v = grid_map2 (\<lambda>x m. if m then v else x) A M"

subsection \<open>The four index calculators\<close>

datatype pyexn =
    ShapeError
  | NameError string
  | KeyError string
  | IndexError
  | OSError string
  | TypeError
  | GdalError

definition calculateEVI :: "fl grid \<Rightarrow> fl grid \<Rightarrow> fl grid \<Rightarrow> pyexn + fl grid" where
  "calculateEVI B08 B04 B02 =
    (if shape B08 = shape B04 \<and> shape B04 = shape B02 then
       let EVI = np_mul_s (Fin 2.5)
                   (np_div (np_sub (np_div_s B08 (Fin 10000)) (np_div_s B04 (Fin 10000)))
                      (np_add_s
                         (np_sub
                            (np_add (np_div_s B08 (Fin 10000))
                               (np_mul_s (Fin 6.0) (np_div_s B04 (Fin 10000))))
                            (np_mul_s (Fin 7.5) (np_div_s B02 (Fin 10000))))
                         (Fin 1)));
           EVI = np_setmask EVI (np_isnan EVI) (Fin (- 9999.0));
           EVI = np_setmask EVI (np_isinf EVI) (Fin (- 9999.0));
           EVI = np_setmask EVI (np_eq_s B08 (Fin 0.0)) (Fin (- 9999.0));
           EVI = np_setmask EVI (np_eq_s B04 (Fin 0.0)) (Fin (- 9999.0));
           EVI = np_setmask EVI (np_eq_s B02 (Fin 0.0)) (Fin (- 9999.0));
           EVI = np_setmask EVI (np_gt_s EVI (Fin 1.25)) (Fin (- 9999.0));
           EVI = np_setmask EVI (np_lt_s EVI (Fin (- 1))) (Fin (- 9999.0))
       in Inr EVI
     else Inl ShapeError)"

definition calculateNDMI :: "fl grid \<Rightarrow> fl grid \<Rightarrow> pyexn + fl grid" where
  "calculateNDMI B8A B11 =
    (if shape B8A = shape B11 then
       let NDMI = np_div (np_sub (np_div_s B8A (Fin 10000)) (np_div_s B11 (Fin 10000)))
                    (np_add (np_div_s B8A (Fin 10000)) (np_div_s B11 (Fin 10000)));
           NDMI = np_setmask NDMI (np_isnan NDMI) (Fin (- 9999.0));
           NDMI = np_setmask NDMI (np_isinf NDMI) (Fin (- 9999.0));
           NDMI = np_setmask NDMI (np_eq_s B8A (Fin 0.0)) (Fin (- 9999.0));
           NDMI = np_setmask NDMI (np_eq_s B11 (Fin 0.0)) (Fin (- 9999.0));
           NDMI = np_setmask NDMI (np_gt_s NDMI (Fin 1)) (Fin (- 9999.0));
           NDMI = np_setmask NDMI (np_lt_s NDMI (Fin (- 1))) (Fin (- 9999.0))
       in Inr NDMI
     else Inl ShapeError)"

definition calculateNDWI :: "fl grid \<Rightarrow> fl grid \<Rightarrow> pyexn + fl grid" where
  "calculateNDWI B03 B08 =
    (if shape B03 = shape B08 then
       let NDWI = np_div (np_sub (np_div_s B03 (Fin 10000)) (np_div_s B08 (Fin 10000)))
                    (np_add (np_div_s B03 (Fin 10000)) (np_div_s B08 (Fin 10000)));
           NDWI = np_setmask NDWI (np_isnan NDWI) (Fin (- 9999.0));
           NDWI = np_setmask NDWI (np_isinf NDWI) (Fin (- 9999.0));
           NDWI = np_setmask NDWI (np_eq_s B03 (Fin 0.0)) (Fin (- 9999.0));
           NDWI = np_setmask NDWI (np_eq_s B08 (Fin 0.0)) (Fin (- 9999.0));
           NDWI = np_setmask NDWI (np_gt_s NDWI (Fin 1)) (Fin (- 9999.0));
           NDWI = np_setmask NDWI (np_lt_s NDWI (Fin (- 1))) (Fin (- 9999.0))
       in Inr NDWI
     else Inl ShapeError)"

definition calculateNDVI :: "fl grid \<Rightarrow> fl grid \<Rightarrow> pyexn + fl grid" where
  "calculateNDVI B08 B04 =
    (if shape B08 = shape B04 then
       let NDVI = np_div (np_sub (np_div_s B08 (Fin 10000)) (np_div_s B04 (Fin 10000)))
                    (np_add (np_div_s B08 (Fin 10000)) (np_div_s B04 (Fin 10000)));
           NDVI = np_setmask NDVI (np_isnan NDVI) (Fin (- 9999.0));
           NDVI = np_setmask NDVI (np_isinf NDVI) (Fin (- 9999.0));
           NDVI = np_setmask NDVI (np_eq_s B04 (Fin 0.0)) (Fin (- 9999.0));
           NDVI = np_setmask NDVI (np_eq_s B08 (Fin 0.0)) (Fin (- 9999.0));
           NDVI = np_setmask NDVI (np_gt_s NDVI (Fin 1)) (Fin (- 9999.0));
           NDVI = np_setmask NDVI (np_lt_s NDVI (Fin (- 1))) (Fin (- 9999.0))
       in Inr NDVI
     else Inl ShapeError)"

subsection \<open>Strings and paths\<close>

fun split_on :: "char \<Rightarrow> string \<Rightarrow> string list" where
  \<comment> \<open>\<^verbatim>\<open>s.split(c)\<close> for a separator of one character\<close>
  "split_on c [] = [[]]"
| "split_on c (x # xs) =
     (if x = c then [] # split_on c xs
      else (case split_on c xs of [] \<Rightarrow> [[x]] | t # ts \<Rightarrow> (x # t) # ts))"

fun str_nat :: "nat \<Rightarrow> string" where
  \<comment> \<open>\<^verbatim>\<open>str(n)\<close>, the decimal digits of a natural number\<close>
  "str_nat n =
     (if n < 10 then [''0123456789'' ! n]
      else str_nat (n div 10) @ [''0123456789'' ! (n mod 10)])"

declare str_nat.simps [simp del]

definition join2 :: "string \<Rightarrow> string \<Rightarrow> string" where
  "join2 a b =
     (if b \<noteq> [] \<and> hd b = CHR ''/'' then b
      else if a = [] \<or> last a = CHR ''/'' then a @ b
      else a @ ''/'' @ b)"

definition path_join :: "string \<Rightarrow> string list \<Rightarrow> string" where
  \<comment> \<open>\<^verbatim>\<open>os.path.join(a, *p)\<close>, as on POSIX\<close>
  "path_join a p = foldl join2 a p"

definition splitext_ext :: "string \<Rightarrow> string" where
  \<comment> \<open>\<^verbatim>\<open>os.path.splitext(p)[1]\<close>: from the last dot of the last path component, unless
      only dots precede it there\<close>
  "splitext_ext p =
     (let name = rev (takeWhile (\<lambda>c. c \<noteq> CHR ''/'') (rev p));
          tail = takeWhile (\<lambda>c. c \<noteq> CHR ''.'') (rev name);
          stem = take (length name - length tail - 1) name
      in if length tail < length name \<and> filter (\<lambda>c. c \<noteq> CHR ''.'') stem \<noteq> []
         then drop (length stem) name else [])"

subsection \<open>The world outside the program\<close>

text \<open>
  The file system and the raster library are not part of the repository. What they
  answer is a parameter of the model (a \<open>world\<close>); what the program does to them is
  kept in the state \<open>sys\<close>: the paths that exist, the records written by
  \<^verbatim>\<open>logging.error\<close>, and the calls of the raster library that were made, each
  with whether it returned (\<open>True\<close>) or raised. Records of \<^verbatim>\<open>logging.info\<close> are left out:
  they do not influence the control flow.
\<close>

datatype pyval = EmptyDict | Str string

fun str_pyval :: "pyval \<Rightarrow> string" where
  "str_pyval EmptyDict = ''{}''"
| "str_pyval (Str p) = p"

record dataset =
  ds_band1 :: "fl grid"
  ds_nodata :: "real option"
  ds_xsize :: nat
  ds_ysize :: nat
  ds_count :: nat
  ds_driver :: string
  ds_geotransform :: "real list"
  ds_projection :: string
  ds_projectionref :: string

record raster =
  inArray :: "fl grid"
  inCols :: nat
  inRows :: nat
  inBands :: nat
  inNoData :: real
  inExtension :: string
  inDriver :: string
  inGeotransform :: "real list"
  inProj :: string
  inProjRef :: string

record memraster =
  mr_array :: "fl grid"
  mr_cols :: nat
  mr_rows :: nat
  mr_nodata :: real
  mr_geotransform :: "real list"
  mr_proj :: string

record world =
  listdir :: "string \<Rightarrow> string list option"
  gdal_Open :: "string \<Rightarrow> dataset option"
  makedirs_fails :: "string \<Rightarrow> bool"
  mem_create_fails :: "fl grid \<Rightarrow> nat \<Rightarrow> nat \<Rightarrow> bool"
  warp_fails :: "string \<Rightarrow> memraster \<Rightarrow> string \<Rightarrow> string \<Rightarrow> bool"
  buildvrt_fails :: "string \<Rightarrow> string list \<Rightarrow> bool"

datatype logrec = LogMsg string | LogExn pyexn

datatype gdalop =
    OpenBand pyval
  | Calc string
  | MemRaster
  | Warp string
  | BuildVRT string string "string list"

record sys =
  files :: "string set"
  dirs :: "string set"
  errlog :: "logrec list"
  calls :: "(gdalop \<times> bool) list"

definition path_exists :: "sys \<Rightarrow> string \<Rightarrow> bool" where
  \<comment> \<open>\<^verbatim>\<open>os.path.exists\<close>\<close>
  "path_exists s p = (p \<in> files s \<or> p \<in> dirs s)"

definition log_error :: "logrec list \<Rightarrow> sys \<Rightarrow> sys" where
  "log_error rs s = s\<lparr>errlog := errlog s @ rs\<rparr>"

definition record_call :: "gdalop \<Rightarrow> bool \<Rightarrow> sys \<Rightarrow> sys" where
  "record_call c ok s = s\<lparr>calls := calls s @ [(c, ok)]\<rparr>"

definition createOutFolder :: "world \<Rightarrow> string \<Rightarrow> sys \<Rightarrow> pyexn + sys" where
  "createOutFolder w outFolder s =
     (if outFolder \<notin> dirs s then
        (if makedirs_fails w outFolder then Inl (OSError outFolder)
         else Inr (s\<lparr>dirs := insert outFolder (dirs s)\<rparr>))
      else Inr s)"

subsection \<open>getRequiredBandsPaths\<close>

text \<open>
  One entry of \<^verbatim>\<open>processingPaths\<close> is a dict that maps each band code to \<^verbatim>\<open>{}\<close> or to the
  path of the raw file, and the keys \<^verbatim>\<open>"outFolder"\<close> and \<^verbatim>\<open>"outName"\<close> to strings. The
  model keeps the two fixed keys apart from the band codes (no band code of the
  sensor is spelled like them). \<^verbatim>\<open>requiredBands\<close> is the list of (role, code) pairs in
  the order of the configuration.
\<close>

record procpath =
  pp_bands :: "(string \<times> pyval) list"
  pp_outFolder :: "string option"
  pp_outName :: "string option"

type_synonym procpaths = "(nat \<times> procpath) list"

record resolver_args =
  ra_product :: string
  ra_imageryDate :: string
  ra_requiredBands :: "(string \<times> string) list"
  ra_rawInput :: string
  ra_outFolder :: string
  ra_resolution :: string

fun for_each :: "('a \<Rightarrow> 's \<Rightarrow> pyexn + 's) \<Rightarrow> 'a list \<Rightarrow> 's \<Rightarrow> pyexn + 's" where
  \<comment> \<open>a \<^verbatim>\<open>for\<close> loop whose body may raise\<close>
  "for_each body [] s = Inr s"
| "for_each body (x # xs) s =
     (case body x s of Inl e \<Rightarrow> Inl e | Inr s' \<Rightarrow> for_each body xs s')"

definition rawBandBody ::
  "resolver_args \<Rightarrow> nat \<Rightarrow> string \<Rightarrow> string \<Rightarrow> string \<Rightarrow> procpath \<Rightarrow> pyexn + procpath" where
  \<comment> \<open>the body of \<^verbatim>\<open>for rawBand in rawBands\<close>, for the band code \<open>code\<close>\<close>
  "rawBandBody a ii pathToRaw code rawBand e =
     (let toks = split_on CHR ''_'' rawBand in
      if length toks < 3 then Inl IndexError
      else if toks ! 2 = code then
        (let inRaster = path_join pathToRaw [rawBand];
             outName = toks ! 0 @ ''_'' @ toks ! 1 @ ''_'' @ ra_product a @ ''_'' @ str_nat ii @ ''.tif'';
             projectedBandPath = path_join (ra_outFolder a) [ra_imageryDate a, ra_product a]
         in Inr (e\<lparr>pp_bands := AList.update code (Str inRaster) (pp_bands e),
                   pp_outFolder := Some projectedBandPath,
                   pp_outName := Some outName\<rparr>))
      else Inr e)"

definition bandBody ::
  "resolver_args \<Rightarrow> nat \<Rightarrow> string \<Rightarrow> string list \<Rightarrow> string \<times> string \<Rightarrow> procpath \<Rightarrow> pyexn + procpath" where
  \<comment> \<open>the body of \<^verbatim>\<open>for band in requiredBands.keys()\<close>\<close>
  "bandBody a ii pathToRaw rawBands band e =
     for_each (rawBandBody a ii pathToRaw (snd band)) rawBands
       (e\<lparr>pp_bands := AList.update (snd band) EmptyDict (pp_bands e)\<rparr>)"

definition first_listed :: "string list option \<Rightarrow> string option" where
  \<comment> \<open>\<^verbatim>\<open>os.listdir(d)[0]\<close>: nothing when the listing raises or is empty\<close>
  "first_listed l = (case l of None \<Rightarrow> None | Some [] \<Rightarrow> None | Some (f # _) \<Rightarrow> Some f)"

fun safeFolderLoop ::
  "world \<Rightarrow> resolver_args \<Rightarrow> string list \<Rightarrow> nat \<Rightarrow> procpaths \<Rightarrow> logrec list
     \<Rightarrow> (pyexn + procpaths) \<times> logrec list" where
  \<comment> \<open>\<^verbatim>\<open>for safeFolder in safeFolders\<close>, with the counter \<open>ii\<close>, the dict built so far and
      the log\<close>
  "safeFolderLoop w a [] ii processingPaths lg = (Inr processingPaths, lg)"
| "safeFolderLoop w a (safeFolder # rest) ii processingPaths lg =
     (let rawBandFolder = path_join (ra_rawInput a) [ra_imageryDate a];
          granuleFolder = path_join rawBandFolder [safeFolder, ''GRANULE'']
      in case first_listed (listdir w granuleFolder) of
           None \<Rightarrow>
             (Inr processingPaths, lg @ [LogMsg (granuleFolder @ '' is empty.''), LogMsg ''e''])
         | Some fFolder \<Rightarrow>
             (let pathToRaw = path_join granuleFolder [fFolder, ''IMG_DATA'', ra_resolution a]
              in case listdir w pathToRaw of
                   None \<Rightarrow> (Inl (OSError pathToRaw), lg)
                 | Some rawBands \<Rightarrow>
                     (case for_each (bandBody a ii pathToRaw rawBands) (ra_requiredBands a)
                             \<lparr>pp_bands = [], pp_outFolder = None, pp_outName = None\<rparr> of
                        Inl e \<Rightarrow> (Inl e, lg)
                      | Inr entry \<Rightarrow>
                          safeFolderLoop w a rest (ii + 1) (processingPaths @ [(ii, entry)]) lg)))"

definition getRequiredBandsPaths ::
  "world \<Rightarrow> resolver_args \<Rightarrow> sys \<Rightarrow> (pyexn + procpaths) \<times> sys" where
  "getRequiredBandsPaths w a s =
     (let rawBandFolder = path_join (ra_rawInput a) [ra_imageryDate a]
      in case listdir w rawBandFolder of
           None \<Rightarrow> (Inl (OSError rawBandFolder), s)
         | Some safeFolders \<Rightarrow>
             (case safeFolderLoop w a safeFolders 0 [] (errlog s) of
                (r, lg) \<Rightarrow> (r, s\<lparr>errlog := lg\<rparr>)))"

subsection \<open>openRasterOneBand and createMemoryRaster\<close>

fun astype_float32 :: "fl \<Rightarrow> fl" where
  "astype_float32 (Fin r) = f32 r"
| "astype_float32 x = x"

definition openRasterOneBand :: "world \<Rightarrow> pyval \<Rightarrow> pyexn + raster" where
  \<comment> \<open>\<^verbatim>\<open>gdal.Open\<close> refuses an argument that is not a path (\<open>TypeError\<close>); a file it cannot
      open or read ends in an exception as well\<close>
  "openRasterOneBand w inRasterP =
     (case inRasterP of
        EmptyDict \<Rightarrow> Inl TypeError
      | Str p \<Rightarrow>
          (case gdal_Open w p of
             None \<Rightarrow> Inl GdalError
           | Some inRaster \<Rightarrow>
               Inr \<lparr>inArray = grid_map astype_float32 (ds_band1 inRaster),
                    inCols = ds_xsize inRaster,
                    inRows = ds_ysize inRaster,
                    inBands = ds_count inRaster,
                    inNoData = (case ds_nodata inRaster of None \<Rightarrow> - 9999.9 | Some v \<Rightarrow> v),
                    inExtension = splitext_ext p,
                    inDriver = ds_driver inRaster,
                    inGeotransform = ds_geotransform inRaster,
                    inProj = ds_projection inRaster,
                    inProjRef = ds_projectionref inRaster\<rparr>))"

definition createMemoryRaster ::
  "world \<Rightarrow> fl grid \<Rightarrow> string \<Rightarrow> nat \<Rightarrow> nat \<Rightarrow> real \<Rightarrow> string \<Rightarrow> real list \<Rightarrow> string
     \<Rightarrow> pyexn + memraster" where
  "createMemoryRaster w outArray outRaster outCols outRows outNoData outDriver outGeotransform outProj =
     (if mem_create_fails w outArray outCols outRows then Inl GdalError
      else Inr \<lparr>mr_array = outArray, mr_cols = outCols, mr_rows = outRows,
                mr_nodata = outNoData, mr_geotransform = outGeotransform, mr_proj = outProj\<rparr>)"

subsection \<open>calculateProducts\<close>

text \<open>
  The configuration: \<^verbatim>\<open>params["script"]\<close> and \<^verbatim>\<open>params["products"]\<close>, the latter as
  the list of (id, product) pairs in the order of the configuration.
\<close>

record script =
  rawInput :: string
  clippingMask :: string
  outEPSG :: string
  productOutput :: string

record productArg =
  prod_name :: string
  prod_resolution :: string
  prod_bands :: "(string \<times> string) list"

record params =
  par_script :: script
  par_products :: "(string \<times> productArg) list"

text \<open>
  The variables of \<^verbatim>\<open>calculateProducts\<close> that are read in a later iteration than the
  one that assigned them, or before any assignment (\<open>None\<close>: not bound yet).
\<close>

record locals =
  v_requiredInputOutputPaths :: "procpaths option"
  v_outName :: "string option"
  v_resultRaster :: "memraster option"

text \<open>
  The result of a step inside the body of the tile loop: an exception that no handler
  catches, a \<^verbatim>\<open>continue\<close>, or the value the step produced.
\<close>

datatype 'a ctl = Uncaught pyexn | Continue sys | Go sys 'a

definition ctl_bind :: "'a ctl \<Rightarrow> (sys \<Rightarrow> 'a \<Rightarrow> 'b ctl) \<Rightarrow> 'b ctl" where
  "ctl_bind m f = (case m of Uncaught e \<Rightarrow> Uncaught e | Continue s \<Rightarrow> Continue s | Go s x \<Rightarrow> f s x)"

definition tryOpen :: "world \<Rightarrow> procpath \<Rightarrow> string \<Rightarrow> sys \<Rightarrow> raster ctl" where
  \<comment> \<open>\<^verbatim>\<open>try: B = openRasterOneBand(paths[tile][code]) except: log; continue\<close>. A missing key
      raises \<open>KeyError\<close> in the \<^verbatim>\<open>try\<close> and again in the message of the handler.\<close>
  "tryOpen w e code s =
     (case map_of (pp_bands e) code of
        None \<Rightarrow> Uncaught (KeyError code)
      | Some p \<Rightarrow>
          (case openRasterOneBand w p of
             Inl ex \<Rightarrow>
               Continue (log_error [LogMsg (''Error while opening '' @ str_pyval p @ ''.''), LogExn ex]
                           (record_call (OpenBand p) False s))
           | Inr B \<Rightarrow> Go (record_call (OpenBand p) True s) B))"

definition tryCalc :: "string \<Rightarrow> string \<Rightarrow> pyexn + fl grid \<Rightarrow> sys \<Rightarrow> (fl grid) ctl" where
  \<comment> \<open>\<^verbatim>\<open>try: result = calculateX(...) except: log; continue\<close>\<close>
  "tryCalc nm msg r s =
     (case r of
        Inl ex \<Rightarrow> Continue (log_error [LogMsg msg, LogExn ex] (record_call (Calc nm) False s))
      | Inr result \<Rightarrow> Go (record_call (Calc nm) True s) result)"

definition tryMem :: "string \<Rightarrow> pyexn + memraster \<Rightarrow> sys \<Rightarrow> memraster ctl" where
  \<comment> \<open>\<^verbatim>\<open>try: resultRaster = createMemoryRaster(...) except: log; continue\<close>\<close>
  "tryMem nm r s =
     (case r of
        Inl ex \<Rightarrow>
          Continue (log_error [LogMsg (''Error while creation in memory output for '' @ nm @ ''.''),
                               LogExn ex] (record_call MemRaster False s))
      | Inr resultRaster \<Rightarrow> Go (record_call MemRaster True s) resultRaster)"

definition band_path :: "procpath \<Rightarrow> string \<Rightarrow> string" where
  \<comment> \<open>\<^verbatim>\<open>paths[tile][code]\<close> inside a message, for a key that is present\<close>
  "band_path e code = (case map_of (pp_bands e) code of None \<Rightarrow> [] | Some p \<Rightarrow> str_pyval p)"

definition branchEVI :: "world \<Rightarrow> procpath \<Rightarrow> sys \<Rightarrow> memraster ctl" where
  "branchEVI w e s =
     ctl_bind (tryOpen w e ''B08'' s) (\<lambda>s B08.
     ctl_bind (tryOpen w e ''B04'' s) (\<lambda>s B04.
     ctl_bind (tryOpen w e ''B02'' s) (\<lambda>s B02.
     ctl_bind (tryCalc ''EVI''
                 (''Error while calculating EVI2 from '' @ band_path e ''B08'' @ '' and ''
                    @ band_path e ''B04'' @ '' and '' @ band_path e ''B02'' @ ''.'')
                 (calculateEVI (inArray B08) (inArray B04) (inArray B02)) s) (\<lambda>s result.
     tryMem ''EVI''
       (createMemoryRaster w result [] (inCols B08) (inRows B08) (- 9999.0) ''MEM''
          (inGeotransform B08) (inProj B08)) s))))"

definition branchNDMI :: "world \<Rightarrow> procpath \<Rightarrow> sys \<Rightarrow> memraster ctl" where
  "branchNDMI w e s =
     ctl_bind (tryOpen w e ''B8A'' s) (\<lambda>s B8A.
     ctl_bind (tryOpen w e ''B11'' s) (\<lambda>s B11.
     ctl_bind (tryCalc ''NDMI''
                 (''Error while calculating NDMI from '' @ band_path e ''B8A'' @ '' and ''
                    @ band_path e ''B11'' @ ''.'')
                 (calculateNDMI (inArray B8A) (inArray B11)) s) (\<lambda>s result.
     tryMem ''NDMI''
       (createMemoryRaster w result [] (inCols B8A) (inRows B8A) (- 9999.0) ''MEM''
          (inGeotransform B8A) (inProj B8A)) s)))"

definition branchNDWI :: "world \<Rightarrow> procpath \<Rightarrow> sys \<Rightarrow> memraster ctl" where
  "branchNDWI w e s =
     ctl_bind (tryOpen w e ''B03'' s) (\<lambda>s B03.
     ctl_bind (tryOpen w e ''B08'' s) (\<lambda>s B08.
     ctl_bind (tryCalc ''NDWI''
                 (''Error while calculating NDWI from '' @ band_path e ''B03'' @ '' and ''
                    @ band_path e ''B08'' @ ''.'')
                 (calculateNDWI (inArray B03) (inArray B08)) s) (\<lambda>s result.
     tryMem ''NDWI''
       (createMemoryRaster w result [] (inCols B03) (inRows B03) (- 9999.0) ''MEM''
          (inGeotransform B03) (inProj B03)) s)))"

definition branchNDVI :: "world \<Rightarrow> procpath \<Rightarrow> sys \<Rightarrow> memraster ctl" where
  "branchNDVI w e s =
     ctl_bind (tryOpen w e ''B04'' s) (\<lambda>s B04.
     ctl_bind (tryOpen w e ''B08'' s) (\<lambda>s B08.
     ctl_bind (tryCalc ''NDVI''
                 (''Error while calculating NDVI from '' @ band_path e ''B08'' @ '' and ''
                    @ band_path e ''B04'' @ ''.'')
                 (calculateNDVI (inArray B08) (inArray B04)) s) (\<lambda>s result.
     tryMem ''NDVI''
       (createMemoryRaster w result [] (inCols B04) (inRows B04) (- 9999.0) ''MEM''
          (inGeotransform B04) (inProj B04)) s)))"

definition productBranch :: "world \<Rightarrow> string \<Rightarrow> procpath \<Rightarrow> sys \<Rightarrow> locals \<Rightarrow> locals ctl" where
  \<comment> \<open>the four \<^verbatim>\<open>if productArgs[prodId]["name"] == ...\<close> blocks: at most one of them
      runs, and it binds \<^verbatim>\<open>resultRaster\<close>; for any other name the variable keeps
      what it had\<close>
  "productBranch w nm e s loc =
     (if nm = ''EVI'' then
        ctl_bind (branchEVI w e s) (\<lambda>s r. Go s (loc\<lparr>v_resultRaster := Some r\<rparr>))
      else if nm = ''NDMI'' then
        ctl_bind (branchNDMI w e s) (\<lambda>s r. Go s (loc\<lparr>v_resultRaster := Some r\<rparr>))
      else if nm = ''NDWI'' then
        ctl_bind (branchNDWI w e s) (\<lambda>s r. Go s (loc\<lparr>v_resultRaster := Some r\<rparr>))
      else if nm = ''NDVI'' then
        ctl_bind (branchNDVI w e s) (\<lambda>s r. Go s (loc\<lparr>v_resultRaster := Some r\<rparr>))
      else Go s loc)"

definition tryWarp ::
  "world \<Rightarrow> params \<Rightarrow> string \<Rightarrow> string \<Rightarrow> sys \<Rightarrow> locals \<Rightarrow> unit ctl" where
  \<comment> \<open>\<^verbatim>\<open>try: gdal.Warp(dest, resultRaster, ...) except: log; continue\<close>; an unbound
      \<^verbatim>\<open>resultRaster\<close> is a \<open>NameError\<close> inside the \<^verbatim>\<open>try\<close>. A warp that returns has written
      the tile file.\<close>
  "tryWarp w par nm dest s loc =
     (case v_resultRaster loc of
        None \<Rightarrow>
          Continue (log_error [LogMsg (''Error while clipping or reprojecting '' @ nm @ ''.''),
                               LogExn (NameError ''resultRaster'')] s)
      | Some resultRaster \<Rightarrow>
          (if warp_fails w dest resultRaster (clippingMask (par_script par)) (outEPSG (par_script par))
           then Continue (log_error [LogMsg (''Error while clipping or reprojecting '' @ nm @ ''.''),
                                     LogExn GdalError] (record_call (Warp dest) False s))
           else Go ((record_call (Warp dest) True s)\<lparr>files := insert dest (files s)\<rparr>) ()))"

type_synonym loopstate = "sys \<times> locals \<times> string list"

definition tileBody ::
  "world \<Rightarrow> params \<Rightarrow> productArg \<Rightarrow> nat \<times> procpath \<Rightarrow> loopstate \<Rightarrow> pyexn + loopstate" where
  \<comment> \<open>the body of the second \<^verbatim>\<open>for tile in requiredInputOutputPaths.keys()\<close>; the state is
      the system, the variables and the list \<^verbatim>\<open>tiles\<close>\<close>
  "tileBody w par arg tile st =
     (case st of (s, loc, tiles) \<Rightarrow>
      (case pp_outFolder (snd tile) of
         None \<Rightarrow> Inl (KeyError ''outFolder'')
       | Some outFolder \<Rightarrow>
      (case pp_outName (snd tile) of
         None \<Rightarrow> Inl (KeyError ''outName'')
       | Some outName \<Rightarrow>
          (let loc = loc\<lparr>v_outName := Some outName\<rparr>;
               dest = path_join outFolder [outName]
           in if \<not> path_exists s dest then
                (case productBranch w (prod_name arg) (snd tile) s loc of
                   Uncaught ex \<Rightarrow> Inl ex
                 | Continue s \<Rightarrow> Inr (s, loc, tiles)
                 | Go s loc \<Rightarrow>
                     (case tryWarp w par (prod_name arg) dest s loc of
                        Uncaught ex \<Rightarrow> Inl ex
                      | Continue s \<Rightarrow> Inr (s, loc, tiles)
                      | Go s u \<Rightarrow> Inr (s, loc, tiles @ [dest])))
              else Inr (s, loc, tiles @ [dest])))))"

definition folderBody :: "world \<Rightarrow> nat \<times> procpath \<Rightarrow> sys \<Rightarrow> pyexn + sys" where
  \<comment> \<open>the body of the first \<^verbatim>\<open>for tile in requiredInputOutputPaths.keys()\<close>\<close>
  "folderBody w tile s =
     (case pp_outFolder (snd tile) of
        None \<Rightarrow> Inl (KeyError ''outFolder'')
      | Some outFolder \<Rightarrow>
          (case createOutFolder w outFolder s of
             Inl ex \<Rightarrow> Inr (log_error [LogMsg (''Error while creating '' @ outFolder @ ''.''), LogExn ex] s)
           | Inr s' \<Rightarrow> Inr s'))"

type_synonym newproducts = "(string \<times> (string \<times> string) list) list"

type_synonym runstate = "sys \<times> locals \<times> newproducts"

definition mosaicStage ::
  "world \<Rightarrow> params \<Rightarrow> string \<Rightarrow> string \<Rightarrow> productArg \<Rightarrow> string list \<Rightarrow> runstate
     \<Rightarrow> pyexn + runstate" where
  \<comment> \<open>from \<^verbatim>\<open>logging.info("Mosaicing tiles to output")\<close> to the end of the body of the
      product loop; the call of \<^verbatim>\<open>gdal.BuildVRT\<close> is recorded with the id of the product
      whose iteration made it\<close>
  "mosaicStage w par imageryDate prodId arg tiles st =
     (case st of (s, loc, newProducts) \<Rightarrow>
      (let mosaicFolder = path_join (productOutput (par_script par)) [imageryDate, prod_name arg]
       in case v_outName loc of
            None \<Rightarrow> Inl (NameError ''outName'')
          | Some outName \<Rightarrow>
              (let toks = split_on CHR ''_'' outName
               in if length toks < 3 then Inl IndexError
                  else
                   (let mosaicName = take 8 (toks ! 1) @ ''_'' @ toks ! 2 @ ''.vrt''
                    in case createOutFolder w mosaicFolder s of
                         Inl ex \<Rightarrow>
                           Inr (log_error [LogMsg (''Error while creating '' @ mosaicFolder @ ''.''),
                                           LogExn ex] s, loc, newProducts)
                       | Inr s \<Rightarrow>
                           (let mosaicPath = path_join mosaicFolder [mosaicName]
                            in if buildvrt_fails w mosaicPath tiles then
                                 Inr (log_error [LogMsg ''Failed to create mosaic.'', LogExn GdalError]
                                        (record_call (BuildVRT prodId mosaicPath tiles) False s),
                                      loc, newProducts)
                               else
                                 (case map_of newProducts prodId of
                                    None \<Rightarrow> Inl (KeyError prodId)
                                  | Some d \<Rightarrow>
                                      Inr ((record_call (BuildVRT prodId mosaicPath tiles) True s)
                                             \<lparr>files := insert mosaicPath (files s)\<rparr>,
                                           loc,
                                           AList.update prodId
                                             (AList.update ''newDate'' imageryDate d)
                                             newProducts)))))))"

definition productBody ::
  "world \<Rightarrow> params \<Rightarrow> string \<Rightarrow> string \<times> productArg \<Rightarrow> runstate \<Rightarrow> pyexn + runstate" where
  \<comment> \<open>the body of \<^verbatim>\<open>for prodId in productArgs.keys()\<close>\<close>
  "productBody w par imageryDate p st =
     (case st of (s, loc, newProducts) \<Rightarrow>
      (let prodId = fst p; arg = snd p;
           newProducts = AList.update prodId [(''name'', prod_name arg)] newProducts;
           a = \<lparr>ra_product = prod_name arg, ra_imageryDate = imageryDate,
                ra_requiredBands = prod_bands arg, ra_rawInput = rawInput (par_script par),
                ra_outFolder = productOutput (par_script par),
                ra_resolution = prod_resolution arg\<rparr>
       in case getRequiredBandsPaths w a s of
            (r, s) \<Rightarrow>
              (let (s, loc) =
                     (case r of
                        Inr paths \<Rightarrow> (s, loc\<lparr>v_requiredInputOutputPaths := Some paths\<rparr>)
                      | Inl ex \<Rightarrow>
                          (log_error
                             [LogMsg (''Error while fetching and calculationg paths for ''
                                        @ prod_name arg),
                              LogExn ex] s, loc))
               in case v_requiredInputOutputPaths loc of
                    None \<Rightarrow> Inl (NameError ''requiredInputOutputPaths'')
                  | Some requiredInputOutputPaths \<Rightarrow>
                      (case for_each (folderBody w) requiredInputOutputPaths s of
                         Inl ex \<Rightarrow> Inl ex
                       | Inr s \<Rightarrow>
                           (case for_each (tileBody w par arg) requiredInputOutputPaths (s, loc, []) of
                              Inl ex \<Rightarrow> Inl ex
                            | Inr (s, loc, tiles) \<Rightarrow>
                                mosaicStage w par imageryDate prodId arg tiles
                                  (s, loc, newProducts))))))"

definition calculateProducts ::
  "world \<Rightarrow> params \<Rightarrow> string \<Rightarrow> sys \<Rightarrow> pyexn + newproducts \<times> sys" where
  "calculateProducts w par imageryDate s =
     (case for_each (productBody w par imageryDate) (par_products par)
             (s, \<lparr>v_requiredInputOutputPaths = None, v_outName = None, v_resultRaster = None\<rparr>, [])
      of Inl ex \<Rightarrow> Inl ex
       | Inr (s, loc, newProducts) \<Rightarrow> Inr (newProducts, s))"

subsection \<open>Notions used in the statements and proofs about the calculators\<close>

definition in_range :: "real \<Rightarrow> real \<Rightarrow> fl \<Rightarrow> bool" where
  \<comment> \<open>a finite pixel within the closed interval from \<open>lo\<close> to \<open>hi\<close>\<close>
  "in_range lo hi x = (case x of Fin r \<Rightarrow> lo \<le> r \<and> r \<le> hi | _ \<Rightarrow> False)"

definition inside :: "nat list \<Rightarrow> nat \<Rightarrow> nat \<Rightarrow> bool" where
  \<comment> \<open>position \<open>(i, j)\<close> lies in an array of shape \<open>S\<close>\<close>
  "inside S i j = (i < length S \<and> j < S ! i)"

definition post_px :: "fl \<Rightarrow> bool list \<Rightarrow> fl \<Rightarrow> fl" where
  \<comment> \<open>what the mask assignments of a calculator do to one pixel: \<open>v\<close> is the value of the
      formula there, \<open>zs\<close> the zero tests of the raw bands in the order of the source\<close>
  "post_px hi zs v =
    (let v = (if isnan v then Fin (- 9999.0) else v);
         v = (if isinf v then Fin (- 9999.0) else v);
         v = foldl (\<lambda>v z. if z then Fin (- 9999.0) else v) v zs;
         v = (if fl_gt v hi then Fin (- 9999.0) else v)
     in if fl_lt v (Fin (- 1)) then Fin (- 9999.0) else v)"

subsection \<open>Notions used in the statements about the orchestrator\<close>

text \<open>
  The tile pipeline as the specification describes it, without the state of the
  program: BandLoader for every band of the product (in the order in which the branch
  of \<^verbatim>\<open>calculateProducts\<close> opens them), IndexCalculator, RasterMaterializer with the
  metadata of the band loaded first, ClipReprojectStage. A tile is produced when its
  file is there already (a cache hit) or when every stage succeeds.
\<close>

definition tile_path :: "procpath \<Rightarrow> string option" where
  "tile_path e =
     (case pp_outFolder e of
        None \<Rightarrow> None
      | Some outFolder \<Rightarrow>
          (case pp_outName e of None \<Rightarrow> None | Some outName \<Rightarrow> Some (path_join outFolder [outName])))"

definition known_product :: "string \<Rightarrow> bool" where
  "known_product nm = (nm = ''EVI'' \<or> nm = ''NDMI'' \<or> nm = ''NDWI'' \<or> nm = ''NDVI'')"

definition bands_for :: "string \<Rightarrow> string list" where
  "bands_for nm =
     (if nm = ''EVI'' then [''B08'', ''B04'', ''B02'']
      else if nm = ''NDMI'' then [''B8A'', ''B11'']
      else if nm = ''NDWI'' then [''B03'', ''B08'']
      else if nm = ''NDVI'' then [''B04'', ''B08'']
      else [])"

fun load_bands :: "world \<Rightarrow> procpath \<Rightarrow> string list \<Rightarrow> raster list option" where
  "load_bands w e [] = Some []"
| "load_bands w e (c # cs) =
     (case map_of (pp_bands e) c of
        None \<Rightarrow> None
      | Some p \<Rightarrow>
          (case openRasterOneBand w p of
             Inl ex \<Rightarrow> None
           | Inr B \<Rightarrow> map_option ((#) B) (load_bands w e cs)))"

definition index_of :: "string \<Rightarrow> raster list \<Rightarrow> pyexn + fl grid" where
  "index_of nm bs =
     (if nm = ''EVI'' then calculateEVI (inArray (bs ! 0)) (inArray (bs ! 1)) (inArray (bs ! 2))
      else if nm = ''NDMI'' then calculateNDMI (inArray (bs ! 0)) (inArray (bs ! 1))
      else if nm = ''NDWI'' then calculateNDWI (inArray (bs ! 0)) (inArray (bs ! 1))
      else calculateNDVI (inArray (bs ! 1)) (inArray (bs ! 0)))"

definition materialized :: "world \<Rightarrow> string \<Rightarrow> procpath \<Rightarrow> memraster option" where
  "materialized w nm e =
     (case load_bands w e (bands_for nm) of
        None \<Rightarrow> None
      | Some bs \<Rightarrow>
          (case index_of nm bs of
             Inl ex \<Rightarrow> None
           | Inr result \<Rightarrow>
               (case createMemoryRaster w result [] (inCols (bs ! 0)) (inRows (bs ! 0)) (- 9999.0)
                       ''MEM'' (inGeotransform (bs ! 0)) (inProj (bs ! 0)) of
                  Inl ex \<Rightarrow> None
                | Inr mr \<Rightarrow> Some mr)))"



definition existing :: "sys \<Rightarrow> string set" where
  "existing s = files s \<union> dirs s"

fun is_vrt :: "gdalop \<times> bool \<Rightarrow> bool" where
  "is_vrt (BuildVRT prodId mosaicPath tiles, ok) = True"
| "is_vrt c = False"

definition vrt_calls :: "sys \<Rightarrow> (gdalop \<times> bool) list" where
  "vrt_calls s = filter is_vrt (calls s)"

definition mosaic_built :: "sys \<Rightarrow> string \<Rightarrow> bool" where
  \<comment> \<open>a call of \<^verbatim>\<open>gdal.BuildVRT\<close> made for the product \<open>prodId\<close> has returned\<close>
  "mosaic_built s prodId = (\<exists>mosaicPath tiles. (BuildVRT prodId mosaicPath tiles, True) \<in> set (calls s))"

subsection \<open>Notions used in the proofs about the orchestrator\<close>

text \<open>
  \<open>quiet s s'\<close>: from \<open>s\<close> to \<open>s'\<close> no path was created and no mosaic call was made.
  \<open>ctl_ok s r v\<close>: the step result \<open>r\<close>, started in \<open>s\<close>, delivers the value \<open>v\<close> (or none)
  and is quiet. \<open>open_failure s r\<close>: the step ended in a \<^verbatim>\<open>continue\<close> after calls that
  are all band openings, the last of which raised.
\<close>

definition quiet :: "sys \<Rightarrow> sys \<Rightarrow> bool" where
  "quiet s s' = (files s' = files s \<and> dirs s' = dirs s \<and> vrt_calls s' = vrt_calls s)"

definition ctl_ok :: "sys \<Rightarrow> 'a ctl \<Rightarrow> 'a option \<Rightarrow> bool" where
  "ctl_ok s r v =
     (case v of
        Some x \<Rightarrow> \<exists>s'. r = Go s' x \<and> quiet s s'
      | None \<Rightarrow> (\<exists>s'. r = Continue s' \<and> quiet s s') \<or> (\<exists>ex. r = Uncaught ex))"

definition load1 :: "world \<Rightarrow> procpath \<Rightarrow> string \<Rightarrow> raster option" where
  "load1 w e c =
     (case map_of (pp_bands e) c of
        None \<Rightarrow> None
      | Some p \<Rightarrow> (case openRasterOneBand w p of Inl ex \<Rightarrow> None | Inr B \<Rightarrow> Some B))"

definition ok_of :: "pyexn + 'a \<Rightarrow> 'a option" where
  "ok_of r = (case r of Inl ex \<Rightarrow> None | Inr x \<Rightarrow> Some x)"



subsection \<open>A small world for the closed examples\<close>

text \<open>
  One date with two granules. The first has the raw files of the bands B04 and B08 (no
  B02, no B03), both readable, one pixel each; the \<^verbatim>\<open>GRANULE\<close> directory of the second
  is empty. The folder of the NDWI tiles cannot be created. No call of the raster library
  raises for a reason of its own: \<^verbatim>\<open>gdal.BuildVRT\<close> returns also for an empty list of
  tiles, as GDAL does while its exceptions are not enabled (the program never enables
  them).
\<close>

definition ex_b04 :: string where
  "ex_b04 = ''raw/20200101/S2A.SAFE/GRANULE/L2A_T33/IMG_DATA/R10m/T33_20200101T100031_B04_10m.jp2''"

definition ex_b08 :: string where
  "ex_b08 = ''raw/20200101/S2A.SAFE/GRANULE/L2A_T33/IMG_DATA/R10m/T33_20200101T100031_B08_10m.jp2''"

definition ex_dataset :: "fl \<Rightarrow> dataset" where
  "ex_dataset v =
     \<lparr>ds_band1 = [[v]], ds_nodata = None, ds_xsize = 1, ds_ysize = 1, ds_count = 1,
      ds_driver = ''JP2OpenJPEG'', ds_geotransform = [600000, 10, 0, 5100000, 0, - 10],
      ds_projection = ''EPSG:32633'', ds_projectionref = ''EPSG:32633''\<rparr>"

definition ex_world :: world where
  "ex_world =
     \<lparr>listdir = (\<lambda>p.
        if p = ''raw/20200101'' then Some [''S2A.SAFE'', ''S2B.SAFE'']
        else if p = ''raw/20200101/S2A.SAFE/GRANULE'' then Some [''L2A_T33'']
        else if p = ''raw/20200101/S2A.SAFE/GRANULE/L2A_T33/IMG_DATA/R10m''
          then Some [''T33_20200101T100031_B04_10m.jp2'', ''T33_20200101T100031_B08_10m.jp2'']
        else if p = ''raw/20200101/S2B.SAFE/GRANULE'' then Some []
        else None),
      gdal_Open = (\<lambda>p.
        if p = ex_b04 then Some (ex_dataset (Fin 2000))
        else if p = ex_b08 then Some (ex_dataset (Fin 8000))
        else None),
      makedirs_fails = (\<lambda>p. p = ''out/20200101/NDWI''),
      mem_create_fails = (\<lambda>g c r. False),
      warp_fails = (\<lambda>dest r mask epsg. False),
      buildvrt_fails = (\<lambda>p ts. False)\<rparr>"

definition ex_sys :: sys where
  "ex_sys = \<lparr>files = {}, dirs = {}, errlog = [], calls = []\<rparr>"

definition ex_locals :: locals where
  "ex_locals = \<lparr>v_requiredInputOutputPaths = None, v_outName = None, v_resultRaster = None\<rparr>"

definition ex_ndvi :: productArg where
  "ex_ndvi = \<lparr>prod_name = ''NDVI'', prod_resolution = ''R10m'',
              prod_bands = [(''NIR'', ''B08''), (''RED'', ''B04'')]\<rparr>"

definition ex_evi :: productArg where
  "ex_evi = \<lparr>prod_name = ''EVI'', prod_resolution = ''R10m'',
             prod_bands = [(''NIR'', ''B08''), (''RED'', ''B04''), (''BLUE'', ''B02'')]\<rparr>"

definition ex_ndwi :: productArg where
  "ex_ndwi = \<lparr>prod_name = ''NDWI'', prod_resolution = ''R10m'',
              prod_bands = [(''GREEN'', ''B03''), (''NIR'', ''B08'')]\<rparr>"

definition ex_params :: "(string \<times> productArg) list \<Rightarrow> params" where
  "ex_params ps =
     \<lparr>par_script = \<lparr>rawInput = ''raw'', clippingMask = ''mask.shp'', outEPSG = ''EPSG:3857'',
                     productOutput = ''out''\<rparr>,
      par_products = ps\<rparr>"

definition ex_args :: "productArg \<Rightarrow> resolver_args" where
  "ex_args p =
     \<lparr>ra_product = prod_name p, ra_imageryDate = ''20200101'', ra_requiredBands = prod_bands p,
      ra_rawInput = ''raw'', ra_outFolder = ''out'', ra_resolution = prod_resolution p\<rparr>"

definition ex_entry_ndvi :: procpath where
  "ex_entry_ndvi =
     \<lparr>pp_bands = [(''B08'', Str ex_b08), (''B04'', Str ex_b04)],
      pp_outFolder = Some ''out/20200101/NDVI'',
      pp_outName = Some ''T33_20200101T100031_NDVI_0.tif''\<rparr>"

definition ex_entry_evi :: procpath where
  "ex_entry_evi =
     \<lparr>pp_bands = [(''B08'', Str ex_b08), (''B04'', Str ex_b04), (''B02'', EmptyDict)],
      pp_outFolder = Some ''out/20200101/EVI'',
      pp_outName = Some ''T33_20200101T100031_EVI_0.tif''\<rparr>"

definition ex_entry_ndwi :: procpath where
  "ex_entry_ndwi =
     \<lparr>pp_bands = [(''B03'', EmptyDict), (''B08'', Str ex_b08)],
      pp_outFolder = Some ''out/20200101/NDWI'',
      pp_outName = Some ''T33_20200101T100031_NDWI_0.tif''\<rparr>"

definition ex_raster :: "real \<Rightarrow> raster" where
  \<comment> \<open>what \<^verbatim>\<open>openRasterOneBand\<close> returns for a raw file of the example\<close>
  "ex_raster v =
     \<lparr>inArray = [[Fin v]], inCols = 1, inRows = 1, inBands = 1, inNoData = - 9999.9,
      inExtension = ''.jp2'', inDriver = ''JP2OpenJPEG'',
      inGeotransform = [600000, 10, 0, 5100000, 0, - 10],
      inProj = ''EPSG:32633'', inProjRef = ''EPSG:32633''\<rparr>"

definition ex_result :: memraster where
  \<comment> \<open>the NDVI raster of the first granule\<close>
  "ex_result =
     \<lparr>mr_array = [[Fin (5033165 / 8388608)]], mr_cols = 1, mr_rows = 1, mr_nodata = - 9999.0,
      mr_geotransform = [600000, 10, 0, 5100000, 0, - 10], mr_proj = ''EPSG:32633''\<rparr>"

definition ex_tile_ndvi :: string where
  "ex_tile_ndvi = ''out/20200101/NDVI/T33_20200101T100031_NDVI_0.tif''"

definition ex_calls_ndvi :: "(gdalop \<times> bool) list" where
  \<comment> \<open>the calls of the tile pipeline for the NDVI tile of the first granule\<close>
  "ex_calls_ndvi =
     [(OpenBand (Str ex_b04), True), (OpenBand (Str ex_b08), True), (Calc ''NDVI'', True),
      (MemRaster, True), (Warp ex_tile_ndvi, True)]"

definition ex_sys_ndvi :: sys where
  \<comment> \<open>the system after the NDVI tile of the first granule was computed from \<open>ex_sys\<close>\<close>
  "ex_sys_ndvi = \<lparr>files = {ex_tile_ndvi}, dirs = {}, errlog = [], calls = ex_calls_ndvi\<rparr>"

definition ex_locals_ndvi :: locals where
  "ex_locals_ndvi =
     \<lparr>v_requiredInputOutputPaths = None, v_outName = Some ''T33_20200101T100031_NDVI_0.tif'',
      v_resultRaster = Some ex_result\<rparr>"

definition ex_tile_evi :: string where
  "ex_tile_evi = ''out/20200101/EVI/T33_20200101T100031_EVI_0.tif''"

definition ex_tile_ndwi :: string where
  "ex_tile_ndwi = ''out/20200101/NDWI/T33_20200101T100031_NDWI_0.tif''"

definition ex_calls_evi :: "(gdalop \<times> bool) list" where
  \<comment> \<open>the calls of the tile pipeline for the EVI tile of the first granule\<close>
  "ex_calls_evi =
     [(OpenBand (Str ex_b08), True), (OpenBand (Str ex_b04), True), (OpenBand EmptyDict, False)]"

definition ex_mosaic_ndvi :: string where
  "ex_mosaic_ndvi = ''out/20200101/NDVI/20200101_NDVI.vrt''"

definition ex_mosaic_evi :: string where
  "ex_mosaic_evi = ''out/20200101/EVI/20200101_EVI.vrt''"

definition ex_granule_log :: "logrec list" where
  \<comment> \<open>what \<^verbatim>\<open>getRequiredBandsPaths\<close> logs for the second granule\<close>
  "ex_granule_log = [LogMsg ''raw/20200101/S2B.SAFE/GRANULE is empty.'', LogMsg ''e'']"

definition ex_run_evi :: sys where
  \<comment> \<open>the system after the run for the product EVI alone\<close>
  "ex_run_evi =
     \<lparr>files = {ex_mosaic_evi}, dirs = {''out/20200101/EVI''},
      errlog = ex_granule_log @ [LogMsg ''Error while opening {}.'', LogExn TypeError],
      calls = ex_calls_evi @ [(BuildVRT ''2'' ex_mosaic_evi [], True)]\<rparr>"

definition ex_run_ndvi_ndwi :: sys where
  \<comment> \<open>the system after the run for the products NDVI and NDWI\<close>
  "ex_run_ndvi_ndwi =
     \<lparr>files = {ex_tile_ndvi, ex_mosaic_ndvi}, dirs = {''out/20200101/NDVI''},
      errlog = ex_granule_log @ ex_granule_log
        @ [LogMsg ''Error while creating out/20200101/NDWI.'', LogExn (OSError ''out/20200101/NDWI''),
           LogMsg ''Error while opening {}.'', LogExn TypeError,
           LogMsg ''Error while creating out/20200101/NDWI.'', LogExn (OSError ''out/20200101/NDWI'')],
      calls = ex_calls_ndvi @ [(BuildVRT ''1'' ex_mosaic_ndvi [ex_tile_ndvi], True),
                               (OpenBand EmptyDict, False)]\<rparr>"


definition ex_products :: "(string \<times> productArg) list" where
  "ex_products = [(''1'', ex_ndvi), (''3'', ex_ndwi)]"

section \<open>Properties\<close>

subsection \<open>The calculators\<close>


lemmas f32_eval = f32_def ulp_def scale_up.simps scale_down.simps rne_def Let_def

lemma shape_grid_map [simp]: "shape (grid_map f g) = shape g"
  by (simp add: shape_def grid_map_def)

lemma shape_grid_map2 [simp]: "shape a = shape b \<Longrightarrow> shape (grid_map2 f a b) = shape a"
  unfolding shape_def grid_map2_def
proof (induction a arbitrary: b)
  case Nil
  then show ?case by simp
next
  case (Cons x xs)
  then obtain y ys where b: "b = y # ys" by (cases b) auto
  with Cons show ?case by simp
qed

lemma shape_length: "shape a = shape b \<Longrightarrow> length a = length b"
  unfolding shape_def by (metis length_map)

lemma nth_grid_map:
  "inside (shape g) i j \<Longrightarrow> grid_map f g ! i ! j = f (g ! i ! j)"
  by (auto simp: grid_map_def shape_def inside_def)

lemma nth_grid_map2:
  assumes "shape a = shape b" "inside (shape a) i j"
  shows "grid_map2 f a b ! i ! j = f (a ! i ! j) (b ! i ! j)"
proof -
  have l: "length a = length b" using assms(1) by (rule shape_length)
  have i: "i < length a" and j: "j < length (a ! i)"
    using assms(2) by (auto simp: inside_def shape_def)
  have "length (a ! i) = length (b ! i)"
    using assms(1) i l by (metis shape_def nth_map)
  then show ?thesis using i j l by (simp add: grid_map2_def)
qed

lemmas np_defs = np_div_s_def np_mul_s_def np_add_s_def np_add_def np_sub_def np_div_def
  np_isnan_def np_isinf_def np_eq_s_def np_gt_s_def np_lt_s_def np_setmask_def

lemma calculateNDVI_pixel:
  assumes "shape B04 = shape B08" "inside (shape B08) i j"
  shows "\<exists>out. calculateNDVI B08 B04 = Inr out \<and> shape out = shape B08 \<and>
     out ! i ! j = post_px (Fin 1) [fl_eq (B04 ! i ! j) (Fin 0), fl_eq (B08 ! i ! j) (Fin 0)]
       (fl_div (fl_sub (fl_div (B08 ! i ! j) (Fin 10000)) (fl_div (B04 ! i ! j) (Fin 10000)))
          (fl_add (fl_div (B08 ! i ! j) (Fin 10000)) (fl_div (B04 ! i ! j) (Fin 10000))))"
  using assms
  by (simp add: calculateNDVI_def Let_def np_defs nth_grid_map nth_grid_map2 post_px_def
      split del: if_split cong: if_cong)

lemma calculateEVI_pixel:
  assumes "shape B04 = shape B08" "shape B02 = shape B08" "inside (shape B08) i j"
  shows "\<exists>out. calculateEVI B08 B04 B02 = Inr out \<and> shape out = shape B08 \<and>
     out ! i ! j = post_px (Fin 1.25)
        [fl_eq (B08 ! i ! j) (Fin 0), fl_eq (B04 ! i ! j) (Fin 0), fl_eq (B02 ! i ! j) (Fin 0)]
       (fl_mul (Fin 2.5) (fl_div (fl_sub (fl_div (B08 ! i ! j) (Fin 10000)) (fl_div (B04 ! i ! j) (Fin 10000)))
          (fl_add (fl_sub (fl_add (fl_div (B08 ! i ! j) (Fin 10000)) (fl_mul (Fin 6) (fl_div (B04 ! i ! j) (Fin 10000))))
              (fl_mul (Fin 7.5) (fl_div (B02 ! i ! j) (Fin 10000)))) (Fin 1))))"
  using assms
  by (simp add: calculateEVI_def Let_def np_defs nth_grid_map nth_grid_map2 post_px_def
      split del: if_split cong: if_cong)


lemma calculateNDMI_pixel:
  assumes "shape B11 = shape B8A" "inside (shape B8A) i j"
  shows "\<exists>out. calculateNDMI B8A B11 = Inr out \<and> shape out = shape B8A \<and>
     out ! i ! j = post_px (Fin 1) [fl_eq (B8A ! i ! j) (Fin 0), fl_eq (B11 ! i ! j) (Fin 0)]
       (fl_div (fl_sub (fl_div (B8A ! i ! j) (Fin 10000)) (fl_div (B11 ! i ! j) (Fin 10000)))
          (fl_add (fl_div (B8A ! i ! j) (Fin 10000)) (fl_div (B11 ! i ! j) (Fin 10000))))"
  using assms
  by (simp add: calculateNDMI_def Let_def np_defs nth_grid_map nth_grid_map2 post_px_def
      split del: if_split cong: if_cong)

lemma calculateNDWI_pixel:
  assumes "shape B08 = shape B03" "inside (shape B03) i j"
  shows "\<exists>out. calculateNDWI B03 B08 = Inr out \<and> shape out = shape B03 \<and>
     out ! i ! j = post_px (Fin 1) [fl_eq (B03 ! i ! j) (Fin 0), fl_eq (B08 ! i ! j) (Fin 0)]
       (fl_div (fl_sub (fl_div (B03 ! i ! j) (Fin 10000)) (fl_div (B08 ! i ! j) (Fin 10000)))
          (fl_add (fl_div (B03 ! i ! j) (Fin 10000)) (fl_div (B08 ! i ! j) (Fin 10000))))"
  using assms
  by (simp add: calculateNDWI_def Let_def np_defs nth_grid_map nth_grid_map2 post_px_def
      split del: if_split cong: if_cong)

lemma foldl_zero_mask:
  "foldl (\<lambda>v z. if z then s else v) v zs = (if True \<in> set zs then s else v)"
  by (induction zs arbitrary: v) auto

lemma post_px_zero: "True \<in> set zs \<Longrightarrow> post_px hi zs v = Fin (- 9999)"
  by (simp add: post_px_def Let_def foldl_zero_mask)

lemma post_px_range:
  "post_px (Fin hi) zs v = Fin (- 9999) \<or> in_range (- 1) hi (post_px (Fin hi) zs v)"
  by (cases v) (auto simp: post_px_def Let_def foldl_zero_mask in_range_def isnan_def isinf_def fl_gt_def)

lemma in_range_finite: "in_range lo hi x \<Longrightarrow> \<not> isnan x \<and> \<not> isinf x"
  by (cases x) (auto simp: in_range_def isnan_def isinf_def)

lemma inside_shape: "inside (shape g) i j = (i < length g \<and> j < length (g ! i))"
  by (auto simp: inside_def shape_def)

text \<open>
  \<^bold>\<open>C1.\<close> For each of the four calculators, on input grids of one shape, at every pixel
  where one of the raw input bands is exactly 0 the calculator returns a grid that holds
  the sentinel \<open>-9999.0\<close> at that pixel.
\<close>

theorem zero_band_gives_sentinel:
  "(shape B08 = shape B04 \<and> shape B04 = shape B02 \<and> i < length B08 \<and> j < length (B08 ! i) \<and>
      (B08 ! i ! j = Fin 0 \<or> B04 ! i ! j = Fin 0 \<or> B02 ! i ! j = Fin 0)
     \<longrightarrow> (\<exists>out. calculateEVI B08 B04 B02 = Inr out \<and> out ! i ! j = Fin (- 9999.0)))
   \<and> (shape B8A = shape B11 \<and> i < length B8A \<and> j < length (B8A ! i) \<and>
      (B8A ! i ! j = Fin 0 \<or> B11 ! i ! j = Fin 0)
     \<longrightarrow> (\<exists>out. calculateNDMI B8A B11 = Inr out \<and> out ! i ! j = Fin (- 9999.0)))
   \<and> (shape B03 = shape B08 \<and> i < length B03 \<and> j < length (B03 ! i) \<and>
      (B03 ! i ! j = Fin 0 \<or> B08 ! i ! j = Fin 0)
     \<longrightarrow> (\<exists>out. calculateNDWI B03 B08 = Inr out \<and> out ! i ! j = Fin (- 9999.0)))
   \<and> (shape B08 = shape B04 \<and> i < length B08 \<and> j < length (B08 ! i) \<and>
      (B08 ! i ! j = Fin 0 \<or> B04 ! i ! j = Fin 0)
     \<longrightarrow> (\<exists>out. calculateNDVI B08 B04 = Inr out \<and> out ! i ! j = Fin (- 9999.0)))"
proof (intro conjI impI)
  assume h: "shape B08 = shape B04 \<and> shape B04 = shape B02 \<and> i < length B08 \<and> j < length (B08 ! i) \<and>
      (B08 ! i ! j = Fin 0 \<or> B04 ! i ! j = Fin 0 \<or> B02 ! i ! j = Fin 0)"
  from h have s: "shape B04 = shape B08" "shape B02 = shape B08" by simp_all
  from h have "i < length B08 \<and> j < length (B08 ! i)" by blast
  then have "inside (shape B08) i j" by (simp only: inside_shape)
  from calculateEVI_pixel[OF s this] h
  show "\<exists>out. calculateEVI B08 B04 B02 = Inr out \<and> out ! i ! j = Fin (- 9999.0)"
    by (auto simp: post_px_zero fl_eq_def)
next
  assume h: "shape B8A = shape B11 \<and> i < length B8A \<and> j < length (B8A ! i) \<and>
      (B8A ! i ! j = Fin 0 \<or> B11 ! i ! j = Fin 0)"
  from h have s: "shape B11 = shape B8A" by simp_all
  from h have "i < length B8A \<and> j < length (B8A ! i)" by blast
  then have "inside (shape B8A) i j" by (simp only: inside_shape)
  from calculateNDMI_pixel[OF s this] h
  show "\<exists>out. calculateNDMI B8A B11 = Inr out \<and> out ! i ! j = Fin (- 9999.0)"
    by (auto simp: post_px_zero fl_eq_def)
next
  assume h: "shape B03 = shape B08 \<and> i < length B03 \<and> j < length (B03 ! i) \<and>
      (B03 ! i ! j = Fin 0 \<or> B08 ! i ! j = Fin 0)"
  from h have s: "shape B08 = shape B03" by simp_all
  from h have "i < length B03 \<and> j < length (B03 ! i)" by blast
  then have "inside (shape B03) i j" by (simp only: inside_shape)
  from calculateNDWI_pixel[OF s this] h
  show "\<exists>out. calculateNDWI B03 B08 = Inr out \<and> out ! i ! j = Fin (- 9999.0)"
    by (auto simp: post_px_zero fl_eq_def)
next
  assume h: "shape B08 = shape B04 \<and> i < length B08 \<and> j < length (B08 ! i) \<and>
      (B08 ! i ! j = Fin 0 \<or> B04 ! i ! j = Fin 0)"
  from h have s: "shape B04 = shape B08" by simp_all
  from h have "i < length B08 \<and> j < length (B08 ! i)" by blast
  then have "inside (shape B08) i j" by (simp only: inside_shape)
  from calculateNDVI_pixel[OF s this] h
  show "\<exists>out. calculateNDVI B08 B04 = Inr out \<and> out ! i ! j = Fin (- 9999.0)"
    by (auto simp: post_px_zero fl_eq_def)
qed


theorem zero_band_gives_sentinel_witness:
  "(\<exists>out. calculateEVI [[Fin 3000, Fin 0]] [[Fin 2000, Fin 2000]] [[Fin 1000, Fin 1000]] = Inr out
        \<and> out ! 0 ! 1 = Fin (- 9999.0))
   \<and> (\<exists>out. calculateNDMI [[Fin 3000, Fin 4000]] [[Fin 0, Fin 2000]] = Inr out
        \<and> out ! 0 ! 0 = Fin (- 9999.0))
   \<and> (\<exists>out. calculateNDWI [[Fin 0, Fin 4000]] [[Fin 5000, Fin 5000]] = Inr out
        \<and> out ! 0 ! 0 = Fin (- 9999.0))
   \<and> (\<exists>out. calculateNDVI [[Fin 3000, Fin 4000]] [[Fin 0, Fin 2000]] = Inr out
        \<and> out ! 0 ! 0 = Fin (- 9999.0))"
proof -
  have e: "\<exists>out. calculateEVI [[Fin 3000, Fin 0]] [[Fin 2000, Fin 2000]] [[Fin 1000, Fin 1000]] = Inr out
        \<and> out ! 0 ! 1 = Fin (- 9999.0)"
    using zero_band_gives_sentinel
      [of "[[Fin 3000, Fin 0]]" "[[Fin 2000, Fin 2000]]" "[[Fin 1000, Fin 1000]]" 0 1]
    by (simp add: shape_def)
  have m: "\<exists>out. calculateNDMI [[Fin 3000, Fin 4000]] [[Fin 0, Fin 2000]] = Inr out
        \<and> out ! 0 ! 0 = Fin (- 9999.0)"
    using zero_band_gives_sentinel
      [of _ _ _ 0 0 "[[Fin 3000, Fin 4000]]" "[[Fin 0, Fin 2000]]"]
    by (simp add: shape_def)
  have w: "\<exists>out. calculateNDWI [[Fin 0, Fin 4000]] [[Fin 5000, Fin 5000]] = Inr out
        \<and> out ! 0 ! 0 = Fin (- 9999.0)"
    using zero_band_gives_sentinel
      [of "[[Fin 5000, Fin 5000]]" _ _ 0 0 _ _ "[[Fin 0, Fin 4000]]"]
    by (simp add: shape_def)
  have v: "\<exists>out. calculateNDVI [[Fin 3000, Fin 4000]] [[Fin 0, Fin 2000]] = Inr out
        \<and> out ! 0 ! 0 = Fin (- 9999.0)"
    using zero_band_gives_sentinel
      [of "[[Fin 3000, Fin 4000]]" "[[Fin 0, Fin 2000]]" _ 0 0]
    by (simp add: shape_def)
  from e m w v show ?thesis by blast
qed

lemma calculateEVI_shape:
  "calculateEVI B08 B04 B02 = Inr out \<Longrightarrow>
     shape B04 = shape B08 \<and> shape B02 = shape B08 \<and> shape out = shape B08"
  by (auto simp: calculateEVI_def Let_def np_defs split: if_splits)

lemma calculateNDMI_shape:
  "calculateNDMI B8A B11 = Inr out \<Longrightarrow> shape B11 = shape B8A \<and> shape out = shape B8A"
  by (auto simp: calculateNDMI_def Let_def np_defs split: if_splits)

lemma calculateNDWI_shape:
  "calculateNDWI B03 B08 = Inr out \<Longrightarrow> shape B08 = shape B03 \<and> shape out = shape B03"
  by (auto simp: calculateNDWI_def Let_def np_defs split: if_splits)

lemma calculateNDVI_shape:
  "calculateNDVI B08 B04 = Inr out \<Longrightarrow> shape B04 = shape B08 \<and> shape out = shape B08"
  by (auto simp: calculateNDVI_def Let_def np_defs split: if_splits)

lemma post_px_valid:
  "(post_px (Fin hi) zs v = Fin (- 9999.0) \<or> in_range (- 1) hi (post_px (Fin hi) zs v)) \<and>
     \<not> isnan (post_px (Fin hi) zs v) \<and> \<not> isinf (post_px (Fin hi) zs v)"
  using post_px_range[of hi zs v] in_range_finite[of "- 1" hi "post_px (Fin hi) zs v"]
  by (auto simp: isnan_def isinf_def)

lemma calculateEVI_valid:
  assumes c: "calculateEVI B08 B04 B02 = Inr out" and i: "i < length out" and j: "j < length (out ! i)"
  shows "(out ! i ! j = Fin (- 9999.0) \<or> in_range (- 1) 1.25 (out ! i ! j))
         \<and> \<not> isnan (out ! i ! j) \<and> \<not> isinf (out ! i ! j)"
proof -
  note s = calculateEVI_shape[OF c]
  from i j have "inside (shape out) i j" by (simp only: inside_shape)
  with s have "inside (shape B08) i j" by simp
  from calculateEVI_pixel[of B04 B08 B02 i j] s this c
  obtain zs v where "out ! i ! j = post_px (Fin 1.25) zs v" by auto
  then show ?thesis using post_px_valid[of "1.25" zs v] by simp
qed

lemma calculateNDMI_valid:
  assumes c: "calculateNDMI B8A B11 = Inr out" and i: "i < length out" and j: "j < length (out ! i)"
  shows "(out ! i ! j = Fin (- 9999.0) \<or> in_range (- 1) 1 (out ! i ! j))
         \<and> \<not> isnan (out ! i ! j) \<and> \<not> isinf (out ! i ! j)"
proof -
  note s = calculateNDMI_shape[OF c]
  from i j have "inside (shape out) i j" by (simp only: inside_shape)
  with s have "inside (shape B8A) i j" by simp
  from calculateNDMI_pixel[of B11 B8A i j] s this c
  obtain zs v where "out ! i ! j = post_px (Fin 1) zs v" by auto
  then show ?thesis using post_px_valid[of 1 zs v] by simp
qed

lemma calculateNDWI_valid:
  assumes c: "calculateNDWI B03 B08 = Inr out" and i: "i < length out" and j: "j < length (out ! i)"
  shows "(out ! i ! j = Fin (- 9999.0) \<or> in_range (- 1) 1 (out ! i ! j))
         \<and> \<not> isnan (out ! i ! j) \<and> \<not> isinf (out ! i ! j)"
proof -
  note s = calculateNDWI_shape[OF c]
  from i j have "inside (shape out) i j" by (simp only: inside_shape)
  with s have "inside (shape B03) i j" by simp
  from calculateNDWI_pixel[of B08 B03 i j] s this c
  obtain zs v where "out ! i ! j = post_px (Fin 1) zs v" by auto
  then show ?thesis using post_px_valid[of 1 zs v] by simp
qed

lemma calculateNDVI_valid:
  assumes c: "calculateNDVI B08 B04 = Inr out" and i: "i < length out" and j: "j < length (out ! i)"
  shows "(out ! i ! j = Fin (- 9999.0) \<or> in_range (- 1) 1 (out ! i ! j))
         \<and> \<not> isnan (out ! i ! j) \<and> \<not> isinf (out ! i ! j)"
proof -
  note s = calculateNDVI_shape[OF c]
  from i j have "inside (shape out) i j" by (simp only: inside_shape)
  with s have "inside (shape B08) i j" by simp
  from calculateNDVI_pixel[of B04 B08 i j] s this c
  obtain zs v where "out ! i ! j = post_px (Fin 1) zs v" by auto
  then show ?thesis using post_px_valid[of 1 zs v] by simp
qed

text \<open>
  \<^bold>\<open>C2.\<close> Whatever the input grids are, every pixel of a grid that a calculator returns
  is the sentinel \<open>-9999.0\<close> or a finite number of the valid domain: from \<open>-1\<close> to
  \<open>1.25\<close> for \<^verbatim>\<open>calculateEVI\<close>, from \<open>-1\<close> to \<open>1\<close> for the other three. No pixel of an
  output is NaN or infinite.
\<close>

theorem output_in_domain_or_sentinel:
  "(calculateEVI B08 B04 B02 = Inr outE \<and> i < length outE \<and> j < length (outE ! i)
     \<longrightarrow> (outE ! i ! j = Fin (- 9999.0) \<or> in_range (- 1) 1.25 (outE ! i ! j))
         \<and> \<not> isnan (outE ! i ! j) \<and> \<not> isinf (outE ! i ! j))
   \<and> (calculateNDMI B8A B11 = Inr outM \<and> i < length outM \<and> j < length (outM ! i)
     \<longrightarrow> (outM ! i ! j = Fin (- 9999.0) \<or> in_range (- 1) 1 (outM ! i ! j))
         \<and> \<not> isnan (outM ! i ! j) \<and> \<not> isinf (outM ! i ! j))
   \<and> (calculateNDWI B03 B08' = Inr outW \<and> i < length outW \<and> j < length (outW ! i)
     \<longrightarrow> (outW ! i ! j = Fin (- 9999.0) \<or> in_range (- 1) 1 (outW ! i ! j))
         \<and> \<not> isnan (outW ! i ! j) \<and> \<not> isinf (outW ! i ! j))
   \<and> (calculateNDVI B08'' B04' = Inr outV \<and> i < length outV \<and> j < length (outV ! i)
     \<longrightarrow> (outV ! i ! j = Fin (- 9999.0) \<or> in_range (- 1) 1 (outV ! i ! j))
         \<and> \<not> isnan (outV ! i ! j) \<and> \<not> isinf (outV ! i ! j))"
  using calculateEVI_valid[of B08 B04 B02 outE i j] calculateNDMI_valid[of B8A B11 outM i j]
    calculateNDWI_valid[of B03 B08' outW i j] calculateNDVI_valid[of B08'' B04' outV i j]
  by blast

lemma px_a: "fl_div (Fin 8000) (Fin 10000) = Fin (13421773 / 16777216)"
  by (simp add: f32_eval split del: if_split)

lemma px_b: "fl_div (Fin 2000) (Fin 10000) = Fin (13421773 / 67108864)"
  by (simp add: f32_eval split del: if_split)

lemma px_sub: "fl_sub (Fin (13421773 / 16777216)) (Fin (13421773 / 67108864)) = Fin (5033165 / 8388608)"
  by (simp add: fl_sub_def f32_eval split del: if_split)

lemma px_add: "fl_add (Fin (13421773 / 16777216)) (Fin (13421773 / 67108864)) = Fin 1"
  by (simp add: f32_eval split del: if_split)

lemma px_div: "fl_div (Fin (5033165 / 8388608)) (Fin 1) = Fin (5033165 / 8388608)"
  by (simp add: f32_eval split del: if_split)

lemma nd_px_8000_2000:
  "fl_div (fl_sub (fl_div (Fin 8000) (Fin 10000)) (fl_div (Fin 2000) (Fin 10000)))
      (fl_add (fl_div (Fin 8000) (Fin 10000)) (fl_div (Fin 2000) (Fin 10000)))
    = Fin (5033165 / 8388608)"
  by (simp only: px_a px_b px_sub px_add px_div)

lemma nd_grid_8000_2000:
  "np_div (np_sub (np_div_s (replicate r (replicate c (Fin 8000))) (Fin 10000))
             (np_div_s (replicate r (replicate c (Fin 2000))) (Fin 10000)))
      (np_add (np_div_s (replicate r (replicate c (Fin 8000))) (Fin 10000))
             (np_div_s (replicate r (replicate c (Fin 2000))) (Fin 10000)))
    = replicate r (replicate c (Fin (5033165 / 8388608)))"
  by (simp add: np_defs grid_map_def grid_map2_def nd_px_8000_2000
      del: fl_div.simps fl_add.simps)

lemma calculateNDVI_8000_2000:
  "calculateNDVI (replicate r (replicate c (Fin 8000))) (replicate r (replicate c (Fin 2000)))
      = Inr (replicate r (replicate c (Fin (5033165 / 8388608))))"
  unfolding calculateNDVI_def nd_grid_8000_2000 Let_def
  by (simp add: np_setmask_def np_isnan_def np_isinf_def np_eq_s_def np_gt_s_def np_lt_s_def
      grid_map_def grid_map2_def shape_def fl_eq_def fl_gt_def isnan_def isinf_def)

lemma calculateNDMI_8000_2000:
  "calculateNDMI (replicate r (replicate c (Fin 8000))) (replicate r (replicate c (Fin 2000)))
      = Inr (replicate r (replicate c (Fin (5033165 / 8388608))))"
  unfolding calculateNDMI_def nd_grid_8000_2000 Let_def
  by (simp add: np_setmask_def np_isnan_def np_isinf_def np_eq_s_def np_gt_s_def np_lt_s_def
      grid_map_def grid_map2_def shape_def fl_eq_def fl_gt_def isnan_def isinf_def)

lemma calculateNDWI_8000_2000:
  "calculateNDWI (replicate r (replicate c (Fin 8000))) (replicate r (replicate c (Fin 2000)))
      = Inr (replicate r (replicate c (Fin (5033165 / 8388608))))"
  unfolding calculateNDWI_def nd_grid_8000_2000 Let_def
  by (simp add: np_setmask_def np_isnan_def np_isinf_def np_eq_s_def np_gt_s_def np_lt_s_def
      grid_map_def grid_map2_def shape_def fl_eq_def fl_gt_def isnan_def isinf_def)

lemma px_c: "fl_div (Fin 1000) (Fin 10000) = Fin (13421773 / 134217728)"
  by (simp add: f32_eval split del: if_split)

lemma px_6b: "fl_mul (Fin 6.0) (Fin (13421773 / 67108864)) = Fin (5033165 / 4194304)"
  by (simp add: f32_eval split del: if_split)

lemma px_a6b: "fl_add (Fin (13421773 / 16777216)) (Fin (5033165 / 4194304)) = Fin 2"
  by (simp add: f32_eval split del: if_split)

lemma px_75c: "fl_mul (Fin 7.5) (Fin (13421773 / 134217728)) = Fin (3 / 4)"
  by (simp add: f32_eval split del: if_split)

lemma px_den: "fl_add (fl_sub (Fin 2) (Fin (3 / 4))) (Fin 1) = Fin (9 / 4)"
  by (simp add: fl_sub_def f32_eval split del: if_split)

lemma px_quot: "fl_div (Fin (5033165 / 8388608)) (Fin (9 / 4)) = Fin (8947849 / 33554432)"
  by (simp add: f32_eval split del: if_split)

lemma px_evi: "fl_mul (Fin 2.5) (Fin (8947849 / 33554432)) = Fin (11184811 / 16777216)"
  by (simp add: f32_eval split del: if_split)

lemma evi_px_8000_2000_1000:
  "fl_mul (Fin 2.5)
     (fl_div (fl_sub (fl_div (Fin 8000) (Fin 10000)) (fl_div (Fin 2000) (Fin 10000)))
        (fl_add
           (fl_sub (fl_add (fl_div (Fin 8000) (Fin 10000))
                      (fl_mul (Fin 6.0) (fl_div (Fin 2000) (Fin 10000))))
              (fl_mul (Fin 7.5) (fl_div (Fin 1000) (Fin 10000))))
           (Fin 1)))
    = Fin (11184811 / 16777216)"
  by (simp only: px_a px_b px_c px_sub px_6b px_a6b px_75c px_den px_quot px_evi)

lemma calculateEVI_8000_2000_1000:
  "calculateEVI [[Fin 8000]] [[Fin 2000]] [[Fin 1000]] = Inr [[Fin (11184811 / 16777216)]]"
proof -
  have r: "np_mul_s (Fin 2.5)
         (np_div (np_sub (np_div_s [[Fin 8000]] (Fin 10000)) (np_div_s [[Fin 2000]] (Fin 10000)))
            (np_add_s
               (np_sub
                  (np_add (np_div_s [[Fin 8000]] (Fin 10000))
                     (np_mul_s (Fin 6.0) (np_div_s [[Fin 2000]] (Fin 10000))))
                  (np_mul_s (Fin 7.5) (np_div_s [[Fin 1000]] (Fin 10000))))
               (Fin 1))) = [[Fin (11184811 / 16777216)]]"
    by (simp only: np_defs grid_map_def grid_map2_def list.map zip_Cons_Cons zip_Nil prod.case
        evi_px_8000_2000_1000)
  show ?thesis
    unfolding calculateEVI_def r Let_def
    by (simp add: np_setmask_def np_isnan_def np_isinf_def np_eq_s_def np_gt_s_def np_lt_s_def
        grid_map_def grid_map2_def shape_def fl_eq_def fl_gt_def isnan_def isinf_def)
qed

text \<open>
  \<^bold>\<open>C9.\<close> On constant grids with NIR = 8000 and RED = 2000 \<^verbatim>\<open>calculateNDVI\<close> returns,
  at every pixel, the float32 number 0.6: the float32 nearest to \<open>6 / 10\<close>, which is what
  \<open>(0.8 - 0.2) / (0.8 + 0.2)\<close> evaluates to in float32 arithmetic. It lies within half a
  unit in the last place of \<open>6 / 10\<close>, it is not the sentinel (the pixel is not masked),
  and it is inside the valid domain.
\<close>

theorem ndvi_8000_2000:
  "calculateNDVI (replicate r (replicate c (Fin 8000))) (replicate r (replicate c (Fin 2000)))
      = Inr (replicate r (replicate c (f32 0.6)))
   \<and> f32 0.6 = Fin (5033165 / 8388608)
   \<and> \<bar>5033165 / 8388608 - 0.6\<bar> < (1 / 2 ^ 25 :: real)
   \<and> f32 0.6 \<noteq> Fin (- 9999.0)
   \<and> in_range (- 1) 1 (f32 0.6)"
proof -
  have v: "f32 0.6 = Fin (5033165 / 8388608)"
    by (simp add: f32_eval split del: if_split)
  note g = calculateNDVI_8000_2000[of r c]
  show ?thesis unfolding v using g by (simp add: in_range_def)
qed


theorem output_in_domain_or_sentinel_witness:
  "calculateEVI [[Fin 8000]] [[Fin 2000]] [[Fin 1000]] = Inr [[Fin (11184811 / 16777216)]]
   \<and> in_range (- 1) 1.25 ([[Fin (11184811 / 16777216)]] ! 0 ! 0)
   \<and> calculateNDMI [[Fin 8000]] [[Fin 2000]] = Inr [[Fin (5033165 / 8388608)]]
   \<and> calculateNDWI [[Fin 8000]] [[Fin 2000]] = Inr [[Fin (5033165 / 8388608)]]
   \<and> calculateNDVI [[Fin 8000]] [[Fin 2000]] = Inr [[Fin (5033165 / 8388608)]]
   \<and> in_range (- 1) 1 ([[Fin (5033165 / 8388608)]] ! 0 ! 0)
   \<and> \<not> isnan ([[Fin (5033165 / 8388608)]] ! 0 ! 0) \<and> \<not> isinf ([[Fin (5033165 / 8388608)]] ! 0 ! 0)"
  using output_in_domain_or_sentinel
    [of "[[Fin 8000]]" "[[Fin 2000]]" "[[Fin 1000]]" "[[Fin (11184811 / 16777216)]]" 0 0
        "[[Fin 8000]]" "[[Fin 2000]]" "[[Fin (5033165 / 8388608)]]"
        "[[Fin 8000]]" "[[Fin 2000]]" "[[Fin (5033165 / 8388608)]]"
        "[[Fin 8000]]" "[[Fin 2000]]" "[[Fin (5033165 / 8388608)]]"]
    calculateEVI_8000_2000_1000 calculateNDMI_8000_2000[of 1 1] calculateNDWI_8000_2000[of 1 1]
    calculateNDVI_8000_2000[of 1 1]
  by simp



subsection \<open>The orchestrator\<close>

lemma quiet_refl [simp]: "quiet s s"
  by (simp add: quiet_def)

lemma quiet_trans: "quiet s s' \<Longrightarrow> quiet s' s'' \<Longrightarrow> quiet s s''"
  by (simp add: quiet_def)

lemma quiet_log [simp]: "quiet s (log_error rs s') = quiet s s'"
  by (simp add: quiet_def log_error_def vrt_calls_def)

lemma quiet_call [simp]: "\<not> is_vrt (c, ok) \<Longrightarrow> quiet s (record_call c ok s') = quiet s s'"
  by (simp add: quiet_def record_call_def vrt_calls_def)

lemma ok_bind:
  assumes "ctl_ok s m v"
      and "\<And>s' x. quiet s s' \<Longrightarrow> v = Some x \<Longrightarrow> ctl_ok s' (f s' x) (g x)"
  shows "ctl_ok s (ctl_bind m f) (Option.bind v g)"
proof (cases v)
  case None
  with assms(1) show ?thesis by (auto simp: ctl_ok_def ctl_bind_def)
next
  case (Some x)
  with assms(1) obtain s' where m: "m = Go s' x" and q: "quiet s s'"
    by (auto simp: ctl_ok_def)
  from assms(2)[OF q Some] have "ctl_ok s' (f s' x) (g x)" .
  with q show ?thesis
    unfolding Some m by (auto simp: ctl_ok_def ctl_bind_def split: option.splits intro: quiet_trans)
qed

lemma ok_tryOpen: "ctl_ok s (tryOpen w e c s) (load1 w e c)"
  by (auto simp: ctl_ok_def tryOpen_def load1_def split: option.splits sum.splits)

lemma ok_tryCalc: "ctl_ok s (tryCalc nm msg r s) (ok_of r)"
  by (auto simp: ctl_ok_def tryCalc_def ok_of_def split: sum.splits)

lemma ok_tryMem: "ctl_ok s (tryMem nm r s) (ok_of r)"
  by (auto simp: ctl_ok_def tryMem_def ok_of_def split: sum.splits)

lemma materialized_EVI:
  "materialized w ''EVI'' e =
     Option.bind (load1 w e ''B08'') (\<lambda>B08.
     Option.bind (load1 w e ''B04'') (\<lambda>B04.
     Option.bind (load1 w e ''B02'') (\<lambda>B02.
     Option.bind (ok_of (calculateEVI (inArray B08) (inArray B04) (inArray B02))) (\<lambda>result.
     ok_of (createMemoryRaster w result [] (inCols B08) (inRows B08) (- 9999.0) ''MEM''
          (inGeotransform B08) (inProj B08))))))"
  by (simp add: materialized_def bands_for_def index_of_def load1_def ok_of_def
      split: option.splits sum.splits)

lemma branchEVI_ok: "ctl_ok s (branchEVI w e s) (materialized w ''EVI'' e)"
  unfolding materialized_EVI branchEVI_def
  by (intro ok_bind ok_tryOpen ok_tryCalc ok_tryMem)

lemma materialized_NDMI:
  "materialized w ''NDMI'' e =
     Option.bind (load1 w e ''B8A'') (\<lambda>B8A.
     Option.bind (load1 w e ''B11'') (\<lambda>B11.
     Option.bind (ok_of (calculateNDMI (inArray B8A) (inArray B11))) (\<lambda>result.
     ok_of (createMemoryRaster w result [] (inCols B8A) (inRows B8A) (- 9999.0) ''MEM''
          (inGeotransform B8A) (inProj B8A)))))"
  by (simp add: materialized_def bands_for_def index_of_def load1_def ok_of_def
      split: option.splits sum.splits)

lemma branchNDMI_ok: "ctl_ok s (branchNDMI w e s) (materialized w ''NDMI'' e)"
  unfolding materialized_NDMI branchNDMI_def
  by (intro ok_bind ok_tryOpen ok_tryCalc ok_tryMem)

lemma materialized_NDWI:
  "materialized w ''NDWI'' e =
     Option.bind (load1 w e ''B03'') (\<lambda>B03.
     Option.bind (load1 w e ''B08'') (\<lambda>B08.
     Option.bind (ok_of (calculateNDWI (inArray B03) (inArray B08))) (\<lambda>result.
     ok_of (createMemoryRaster w result [] (inCols B03) (inRows B03) (- 9999.0) ''MEM''
          (inGeotransform B03) (inProj B03)))))"
  by (simp add: materialized_def bands_for_def index_of_def load1_def ok_of_def
      split: option.splits sum.splits)

lemma branchNDWI_ok: "ctl_ok s (branchNDWI w e s) (materialized w ''NDWI'' e)"
  unfolding materialized_NDWI branchNDWI_def
  by (intro ok_bind ok_tryOpen ok_tryCalc ok_tryMem)

lemma materialized_NDVI:
  "materialized w ''NDVI'' e =
     Option.bind (load1 w e ''B04'') (\<lambda>B04.
     Option.bind (load1 w e ''B08'') (\<lambda>B08.
     Option.bind (ok_of (calculateNDVI (inArray B08) (inArray B04))) (\<lambda>result.
     ok_of (createMemoryRaster w result [] (inCols B04) (inRows B04) (- 9999.0) ''MEM''
          (inGeotransform B04) (inProj B04)))))"
  by (simp add: materialized_def bands_for_def index_of_def load1_def ok_of_def
      split: option.splits sum.splits)

lemma branchNDVI_ok: "ctl_ok s (branchNDVI w e s) (materialized w ''NDVI'' e)"
  unfolding materialized_NDVI branchNDVI_def
  by (intro ok_bind ok_tryOpen ok_tryCalc ok_tryMem)

lemma ok_set_raster:
  "ctl_ok s m v \<Longrightarrow>
   ctl_ok s (ctl_bind m (\<lambda>s r. Go s (loc\<lparr>v_resultRaster := Some r\<rparr>)))
     (map_option (\<lambda>r. loc\<lparr>v_resultRaster := Some r\<rparr>) v)"
  by (auto simp: ctl_ok_def ctl_bind_def split: option.splits)

lemma productBranch_ok:
  assumes "known_product nm"
  shows "ctl_ok s (productBranch w nm e s loc)
           (map_option (\<lambda>r. loc\<lparr>v_resultRaster := Some r\<rparr>) (materialized w nm e))"
  using assms branchEVI_ok[of s w e, THEN ok_set_raster, of loc]
    branchNDMI_ok[of s w e, THEN ok_set_raster, of loc]
    branchNDWI_ok[of s w e, THEN ok_set_raster, of loc]
    branchNDVI_ok[of s w e, THEN ok_set_raster, of loc]
  by (auto simp: known_product_def productBranch_def)

lemma existing_quiet: "quiet s s' \<Longrightarrow> existing s' = existing s"
  by (simp add: quiet_def existing_def)







lemma productBranch_outName:
  "productBranch w nm e s loc = Go s' loc' \<Longrightarrow> v_outName loc' = v_outName loc"
  by (auto simp: productBranch_def ctl_bind_def split: if_splits ctl.splits)

lemma tileBody_appended_exists:
  assumes "tileBody w par arg t (s, loc, tiles) = Inr (s1, loc1, tiles @ [dest])"
  shows "tile_path (snd t) = Some dest \<and> path_exists s1 dest \<and> v_outName loc1 = pp_outName (snd t)"
proof -
  from assms obtain outFolder outName where f: "pp_outFolder (snd t) = Some outFolder"
    and n: "pp_outName (snd t) = Some outName"
    by (auto simp: tileBody_def split: option.splits)
  show ?thesis
    using assms f n
    by (auto simp: tileBody_def Let_def tile_path_def tryWarp_def path_exists_def record_call_def
        log_error_def dest: productBranch_outName split: ctl.splits option.splits if_splits)
qed

text \<open>
  \<^bold>\<open>C3.\<close> When the tile file of a tile exists already, the body of the tile loop changes
  nothing in the system (no band is opened, no index computed, no raster created in
  memory, nothing warped or written, nothing logged) and still appends the path of
  the tile to the list of tiles. Consequently, after a run of the body that has
  appended the tile, a second run for the same tile leaves the system as it is.
\<close>

theorem cache_hit_skips_pipeline:
  assumes "pp_outFolder e = Some outFolder" and "pp_outName e = Some outName"
  shows "(path_exists s (path_join outFolder [outName]) \<longrightarrow>
            tileBody w par arg (tile, e) (s, loc, tiles)
              = Inr (s, loc\<lparr>v_outName := Some outName\<rparr>, tiles @ [path_join outFolder [outName]]))
       \<and> (tileBody w par arg (tile, e) (sa, loca, tilesa) = Inr (sb, locb, tilesa @ [dest]) \<longrightarrow>
            tileBody w par arg (tile, e) (sb, locb, tilesb) = Inr (sb, locb, tilesb @ [dest]))"
proof (intro conjI impI)
  assume "path_exists s (path_join outFolder [outName])"
  with assms show "tileBody w par arg (tile, e) (s, loc, tiles)
              = Inr (s, loc\<lparr>v_outName := Some outName\<rparr>, tiles @ [path_join outFolder [outName]])"
    by (simp add: tileBody_def)
next
  assume a: "tileBody w par arg (tile, e) (sa, loca, tilesa) = Inr (sb, locb, tilesa @ [dest])"
  from tileBody_appended_exists[OF a] assms
  have d: "dest = path_join outFolder [outName]" and x: "path_exists sb dest"
    and l: "v_outName locb = Some outName"
    by (simp_all add: tile_path_def)
  from l have "locb\<lparr>v_outName := Some outName\<rparr> = locb" by (cases locb) simp
  with assms d x show "tileBody w par arg (tile, e) (sb, locb, tilesb) = Inr (sb, locb, tilesb @ [dest])"
    by (simp add: tileBody_def)
qed

text \<open>
  \<^bold>\<open>C7 (amended).\<close> The program has no check for an empty list of tiles. With an empty
  list (and a tile name bound by an iteration of the tile loop) the mosaic stage still
  creates the mosaic folder and calls \<^verbatim>\<open>gdal.BuildVRT\<close> with the empty list. The
  product is skipped, with two error records, only when creating the folder or the
  call raises; when the call returns, nothing is logged and the product gets its
  \<^verbatim>\<open>newDate\<close>. In every case the stage returns and the run goes on.
\<close>

theorem empty_tile_list_still_builds:
  assumes "v_outName loc = Some outName"
      and "3 \<le> length (split_on CHR ''_'' outName)"
      and "map_of newProducts prodId = Some d"
      and "mosaicFolder = path_join (productOutput (par_script par)) [imageryDate, prod_name arg]"
      and "mosaicPath = path_join mosaicFolder
             [take 8 (split_on CHR ''_'' outName ! 1) @ ''_'' @ split_on CHR ''_'' outName ! 2 @ ''.vrt'']"
  shows "\<exists>s' newProducts'.
      mosaicStage w par imageryDate prodId arg [] (s, loc, newProducts) = Inr (s', loc, newProducts')
    \<and> (if mosaicFolder \<notin> dirs s \<and> makedirs_fails w mosaicFolder
        then calls s' = calls s \<and> newProducts' = newProducts
           \<and> errlog s' = errlog s @ [LogMsg (''Error while creating '' @ mosaicFolder @ ''.''),
                                      LogExn (OSError mosaicFolder)]
        else if buildvrt_fails w mosaicPath []
        then calls s' = calls s @ [(BuildVRT prodId mosaicPath [], False)] \<and> newProducts' = newProducts
           \<and> errlog s' = errlog s @ [LogMsg ''Failed to create mosaic.'', LogExn GdalError]
        else calls s' = calls s @ [(BuildVRT prodId mosaicPath [], True)]
           \<and> newProducts' = AList.update prodId (AList.update ''newDate'' imageryDate d) newProducts
           \<and> errlog s' = errlog s)"
  using assms
  by (simp add: mosaicStage_def Let_def createOutFolder_def log_error_def record_call_def)

lemma openRasterOneBand_EmptyDict [simp]: "openRasterOneBand w EmptyDict = Inl TypeError"
  by (simp add: openRasterOneBand_def)








lemma safeFolderLoop_break:
  assumes "first_listed (listdir w
             (path_join (path_join (ra_rawInput a) [ra_imageryDate a]) [bad, ''GRANULE''])) = None"
  shows "safeFolderLoop w a pre ii acc lg = (Inr paths, lg) \<Longrightarrow>
     safeFolderLoop w a (pre @ bad # post) ii acc lg
       = (Inr paths,
          lg @ [LogMsg (path_join (path_join (ra_rawInput a) [ra_imageryDate a]) [bad, ''GRANULE'']
                          @ '' is empty.''), LogMsg ''e''])
     \<and> length paths = length acc + length pre"
proof (induction pre arbitrary: ii acc)
  case Nil
  with assms show ?case by (simp add: Let_def)
next
  case (Cons x pre)
  from Cons.prems obtain fFolder rawBands entry where
    "first_listed (listdir w (path_join (path_join (ra_rawInput a) [ra_imageryDate a]) [x, ''GRANULE'']))
       = Some fFolder"
    "listdir w (path_join (path_join (path_join (ra_rawInput a) [ra_imageryDate a]) [x, ''GRANULE''])
       [fFolder, ''IMG_DATA'', ra_resolution a]) = Some rawBands"
    "for_each (bandBody a ii (path_join (path_join (path_join (ra_rawInput a) [ra_imageryDate a])
         [x, ''GRANULE'']) [fFolder, ''IMG_DATA'', ra_resolution a]) rawBands) (ra_requiredBands a)
        \<lparr>pp_bands = [], pp_outFolder = None, pp_outName = None\<rparr> = Inr entry"
    "safeFolderLoop w a pre (ii + 1) (acc @ [(ii, entry)]) lg = (Inr paths, lg)"
    by (auto simp: Let_def split: option.splits sum.splits)
  with Cons.IH[of "ii + 1" "acc @ [(ii, entry)]"] show ?case
    by (simp add: Let_def)
qed


lemma mosaic_built_vrt:
  "mosaic_built s q = (\<exists>mosaicPath tiles. (BuildVRT q mosaicPath tiles, True) \<in> set (vrt_calls s))"
  by (auto simp: mosaic_built_def vrt_calls_def)

lemma getRequiredBandsPaths_frame:
  "getRequiredBandsPaths w a s = (r, s') \<Longrightarrow>
     files s' = files s \<and> dirs s' = dirs s \<and> calls s' = calls s"
  by (auto simp: getRequiredBandsPaths_def Let_def split: option.splits prod.splits)

lemma folderLoop_frame:
  "for_each (folderBody w) ps s = Inr s' \<Longrightarrow> files s' = files s \<and> calls s' = calls s"
proof (induction ps arbitrary: s)
  case Nil
  then show ?case by simp
next
  case (Cons p ps)
  from Cons.prems obtain s1 where b: "folderBody w p s = Inr s1"
    and l: "for_each (folderBody w) ps s1 = Inr s'"
    by (auto split: sum.splits)
  from b have "files s1 = files s \<and> calls s1 = calls s"
    by (auto simp: folderBody_def createOutFolder_def log_error_def
        split: option.splits sum.splits if_splits)
  with Cons.IH[OF l] show ?case by simp
qed

lemma productBranch_quiet:
  assumes "productBranch w nm e s loc = Go s' loc' \<or> productBranch w nm e s loc = Continue s'"
  shows "quiet s s'"
proof (cases "known_product nm")
  case True
  from productBranch_ok[OF True, of s w e loc] assms show ?thesis
    by (auto simp: ctl_ok_def split: option.splits)
next
  case False
  with assms show ?thesis
    by (auto simp: productBranch_def known_product_def)
qed

lemma tileBody_vrt:
  assumes "tileBody w par arg t (s, loc, tiles) = Inr (s', loc', tiles')"
  shows "vrt_calls s' = vrt_calls s"
proof -
  from assms obtain outFolder outName where f: "pp_outFolder (snd t) = Some outFolder"
    and n: "pp_outName (snd t) = Some outName"
    by (auto simp: tileBody_def split: option.splits)
  define loc1 where "loc1 = loc\<lparr>v_outName := Some outName\<rparr>"
  define dest where "dest = path_join outFolder [outName]"
  show ?thesis
  proof (cases "path_exists s dest")
    case True
    with assms f n show ?thesis by (simp add: tileBody_def Let_def dest_def)
  next
    case False
    show ?thesis
    proof (cases "productBranch w (prod_name arg) (snd t) s loc1")
      case (Uncaught ex)
      with assms f n False show ?thesis by (simp add: tileBody_def Let_def dest_def loc1_def)
    next
      case (Continue s1)
      with productBranch_quiet[of w "prod_name arg" "snd t" s loc1 s1] assms f n False
      show ?thesis by (simp add: tileBody_def Let_def dest_def loc1_def quiet_def)
    next
      case (Go s1 loc2)
      with productBranch_quiet[of w "prod_name arg" "snd t" s loc1 s1 loc2]
      have "vrt_calls s1 = vrt_calls s" by (simp add: quiet_def)
      with Go assms f n False show ?thesis
        by (auto simp: tileBody_def Let_def dest_def loc1_def tryWarp_def vrt_calls_def
            record_call_def log_error_def split: option.splits if_splits)
    qed
  qed
qed

lemma tileLoop_vrt:
  "for_each (tileBody w par arg) ts (s, loc, tiles) = Inr (s', loc', tiles') \<Longrightarrow>
     vrt_calls s' = vrt_calls s"
proof (induction ts arbitrary: s loc tiles)
  case Nil
  then show ?case by simp
next
  case (Cons t ts)
  from Cons.prems obtain s1 loc1 tiles1 where
    b: "tileBody w par arg t (s, loc, tiles) = Inr (s1, loc1, tiles1)"
    and l: "for_each (tileBody w par arg) ts (s1, loc1, tiles1) = Inr (s', loc', tiles')"
    by (auto split: sum.splits)
  from Cons.IH[OF l] tileBody_vrt[OF b] show ?case by simp
qed

lemma mosaicStage_effect:
  assumes "mosaicStage w par imageryDate prodId arg tiles (s, loc, np) = Inr (s', loc', np')"
  shows "(np' = np \<and> (vrt_calls s' = vrt_calls s
                       \<or> (\<exists>mp. vrt_calls s' = vrt_calls s @ [(BuildVRT prodId mp tiles, False)])))
       \<or> (\<exists>d mp. map_of np prodId = Some d
              \<and> np' = AList.update prodId (AList.update ''newDate'' imageryDate d) np
              \<and> vrt_calls s' = vrt_calls s @ [(BuildVRT prodId mp tiles, True)])"
  using assms
  by (auto simp: mosaicStage_def Let_def createOutFolder_def log_error_def record_call_def
      vrt_calls_def split: option.splits if_splits sum.splits)

lemma productBody_effect:
  assumes "productBody w par imageryDate (prodId, arg) (s, loc, np) = Inr (s', loc', np')"
  shows "(map_of np' prodId = Some [(''name'', prod_name arg)]
            \<and> (\<forall>q. q \<noteq> prodId \<longrightarrow> map_of np' q = map_of np q)
            \<and> (vrt_calls s' = vrt_calls s
                 \<or> (\<exists>mp ts. vrt_calls s' = vrt_calls s @ [(BuildVRT prodId mp ts, False)])))
       \<or> (map_of np' prodId = Some [(''name'', prod_name arg), (''newDate'', imageryDate)]
            \<and> (\<forall>q. q \<noteq> prodId \<longrightarrow> map_of np' q = map_of np q)
            \<and> (\<exists>mp ts. vrt_calls s' = vrt_calls s @ [(BuildVRT prodId mp ts, True)]))"
proof -
  define np1 where "np1 = AList.update prodId [(''name'', prod_name arg)] np"
  define a where "a = \<lparr>ra_product = prod_name arg, ra_imageryDate = imageryDate,
                ra_requiredBands = prod_bands arg, ra_rawInput = rawInput (par_script par),
                ra_outFolder = productOutput (par_script par),
                ra_resolution = prod_resolution arg\<rparr>"
  obtain r s1 where g: "getRequiredBandsPaths w a s = (r, s1)" by (cases "getRequiredBandsPaths w a s")
  from getRequiredBandsPaths_frame[OF g] have v1: "vrt_calls s1 = vrt_calls s"
    by (simp add: vrt_calls_def)
  define s2 where "s2 = (case r of Inr paths \<Rightarrow> s1
     | Inl ex \<Rightarrow> log_error [LogMsg (''Error while fetching and calculationg paths for '' @ prod_name arg),
                              LogExn ex] s1)"
  define loc2 where "loc2 = (case r of Inr paths \<Rightarrow> loc\<lparr>v_requiredInputOutputPaths := Some paths\<rparr>
     | Inl ex \<Rightarrow> loc)"
  have v2: "vrt_calls s2 = vrt_calls s"
    using v1 by (simp add: s2_def vrt_calls_def log_error_def split: sum.splits)
  have pb: "productBody w par imageryDate (prodId, arg) (s, loc, np) =
     (case v_requiredInputOutputPaths loc2 of
        None \<Rightarrow> Inl (NameError ''requiredInputOutputPaths'')
      | Some paths \<Rightarrow>
          (case for_each (folderBody w) paths s2 of
             Inl ex \<Rightarrow> Inl ex
           | Inr s3 \<Rightarrow>
               (case for_each (tileBody w par arg) paths (s3, loc2, []) of
                  Inl ex \<Rightarrow> Inl ex
                | Inr (s4, loc4, tiles) \<Rightarrow>
                    mosaicStage w par imageryDate prodId arg tiles (s4, loc4, np1))))"
  proof (cases r)
    case (Inl ex)
    with g show ?thesis
      unfolding s2_def loc2_def np1_def
      by (simp add: productBody_def Let_def a_def[symmetric] cong: option.case_cong sum.case_cong)
  next
    case (Inr paths)
    with g show ?thesis
      unfolding s2_def loc2_def np1_def
      by (simp add: productBody_def Let_def a_def[symmetric] cong: option.case_cong sum.case_cong)
  qed
  from assms[unfolded pb] obtain paths s3 s4 loc4 tiles where
    "for_each (folderBody w) paths s2 = Inr s3"
    "for_each (tileBody w par arg) paths (s3, loc2, []) = Inr (s4, loc4, tiles)"
    and m: "mosaicStage w par imageryDate prodId arg tiles (s4, loc4, np1) = Inr (s', loc', np')"
    by (auto split: option.splits sum.splits)
  with folderLoop_frame[of w paths s2 s3] tileLoop_vrt[of w par arg paths s3 loc2 "[]" s4 loc4 tiles] v2
  have v4: "vrt_calls s4 = vrt_calls s" by (simp add: vrt_calls_def)
  have n1: "map_of np1 prodId = Some [(''name'', prod_name arg)]"
    and o1: "\<And>q. q \<noteq> prodId \<Longrightarrow> map_of np1 q = map_of np q"
    by (simp_all add: np1_def update_conv')
  from mosaicStage_effect[OF m] show ?thesis
  proof
    assume "np' = np1 \<and> (vrt_calls s' = vrt_calls s4
                       \<or> (\<exists>mp. vrt_calls s' = vrt_calls s4 @ [(BuildVRT prodId mp tiles, False)]))"
    with n1 o1 v4 show ?thesis by auto
  next
    assume "\<exists>d mp. map_of np1 prodId = Some d
              \<and> np' = AList.update prodId (AList.update ''newDate'' imageryDate d) np1
              \<and> vrt_calls s' = vrt_calls s4 @ [(BuildVRT prodId mp tiles, True)]"
    with n1 o1 v4 show ?thesis by (auto simp: update_conv')
  qed
qed

lemma built_other: 
  assumes "q \<noteq> prodId" "vrt_calls s' = vrt_calls s \<or> (\<exists>mp ts ok. vrt_calls s' = vrt_calls s @ [(BuildVRT prodId mp ts, ok)])"
  shows "mosaic_built s' q = mosaic_built s q"
  using assms(2)
proof (elim disjE exE)
  assume "vrt_calls s' = vrt_calls s"
  then show ?thesis unfolding mosaic_built_vrt by simp
next
  fix mp ts ok assume "vrt_calls s' = vrt_calls s @ [(BuildVRT prodId mp ts, ok)]"
  then have "set (vrt_calls s') = insert (BuildVRT prodId mp ts, ok) (set (vrt_calls s))" by simp
  with assms(1) show ?thesis unfolding mosaic_built_vrt by simp
qed

lemma built_not:
  assumes "\<not> mosaic_built s prodId" "vrt_calls s' = vrt_calls s
                 \<or> (\<exists>mp ts. vrt_calls s' = vrt_calls s @ [(BuildVRT prodId mp ts, False)])"
  shows "\<not> mosaic_built s' prodId"
  using assms(2)
proof (elim disjE exE)
  assume "vrt_calls s' = vrt_calls s"
  with assms(1) show ?thesis unfolding mosaic_built_vrt by simp
next
  fix mp ts assume "vrt_calls s' = vrt_calls s @ [(BuildVRT prodId mp ts, False)]"
  then have "set (vrt_calls s') = insert (BuildVRT prodId mp ts, False) (set (vrt_calls s))" by simp
  with assms(1) show ?thesis unfolding mosaic_built_vrt by simp
qed

lemma built_yes:
  assumes "\<exists>mp ts. vrt_calls s' = vrt_calls s @ [(BuildVRT prodId mp ts, True)]"
  shows "mosaic_built s' prodId"
proof -
  from assms obtain mp ts where "vrt_calls s' = vrt_calls s @ [(BuildVRT prodId mp ts, True)]" by blast
  then have "(BuildVRT prodId mp ts, True) \<in> set (vrt_calls s')" by simp
  then show ?thesis unfolding mosaic_built_vrt by blast
qed

lemma productBody_step:
  assumes "productBody w par imageryDate (prodId, arg) (s, loc, np) = Inr (s', loc', np')"
  shows "(\<forall>q. q \<noteq> prodId \<longrightarrow> map_of np' q = map_of np q \<and> mosaic_built s' q = mosaic_built s q)"
    and "\<not> mosaic_built s prodId \<Longrightarrow>
          \<exists>d. map_of np' prodId = Some d \<and> map_of d ''name'' = Some (prod_name arg)
             \<and> (map_of d ''newDate'' \<noteq> None) = mosaic_built s' prodId
             \<and> (map_of d ''newDate'' = None \<or> map_of d ''newDate'' = Some imageryDate)"
proof -
  note e = productBody_effect[OF assms]
  from e have v: "vrt_calls s' = vrt_calls s
      \<or> (\<exists>mp ts ok. vrt_calls s' = vrt_calls s @ [(BuildVRT prodId mp ts, ok)])"
    by blast
  show "\<forall>q. q \<noteq> prodId \<longrightarrow> map_of np' q = map_of np q \<and> mosaic_built s' q = mosaic_built s q"
  proof (intro allI impI conjI)
    fix q assume q: "q \<noteq> prodId"
    from e q show "map_of np' q = map_of np q" by blast
    from built_other[OF q v] show "mosaic_built s' q = mosaic_built s q" .
  qed
  show "\<exists>d. map_of np' prodId = Some d \<and> map_of d ''name'' = Some (prod_name arg)
             \<and> (map_of d ''newDate'' \<noteq> None) = mosaic_built s' prodId
             \<and> (map_of d ''newDate'' = None \<or> map_of d ''newDate'' = Some imageryDate)"
    if nb: "\<not> mosaic_built s prodId"
    using e
  proof
    assume a: "map_of np' prodId = Some [(''name'', prod_name arg)]
            \<and> (\<forall>q. q \<noteq> prodId \<longrightarrow> map_of np' q = map_of np q)
            \<and> (vrt_calls s' = vrt_calls s
                 \<or> (\<exists>mp ts. vrt_calls s' = vrt_calls s @ [(BuildVRT prodId mp ts, False)]))"
    then have "\<not> mosaic_built s' prodId" using built_not[OF nb] by blast
    with a show ?thesis by simp
  next
    assume a: "map_of np' prodId = Some [(''name'', prod_name arg), (''newDate'', imageryDate)]
            \<and> (\<forall>q. q \<noteq> prodId \<longrightarrow> map_of np' q = map_of np q)
            \<and> (\<exists>mp ts. vrt_calls s' = vrt_calls s @ [(BuildVRT prodId mp ts, True)])"
    then have "mosaic_built s' prodId" using built_yes by blast
    with a show ?thesis by simp
  qed
qed

lemma productLoop_entries:
  "for_each (productBody w par imageryDate) ps (s, loc, np) = Inr (s', loc', np') \<Longrightarrow>
   distinct (map fst ps) \<Longrightarrow> (\<forall>p \<in> set ps. \<not> mosaic_built s (fst p)) \<Longrightarrow>
     (\<forall>q. q \<notin> fst ` set ps \<longrightarrow> map_of np' q = map_of np q \<and> mosaic_built s' q = mosaic_built s q)
   \<and> (\<forall>p \<in> set ps. \<exists>d. map_of np' (fst p) = Some d \<and> map_of d ''name'' = Some (prod_name (snd p))
             \<and> (map_of d ''newDate'' \<noteq> None) = mosaic_built s' (fst p)
             \<and> (map_of d ''newDate'' = None \<or> map_of d ''newDate'' = Some imageryDate))"
proof (induction ps arbitrary: s loc np)
  case Nil
  then show ?case by simp
next
  case (Cons p ps)
  obtain prodId arg where p: "p = (prodId, arg)" by (cases p)
  from Cons.prems(1) obtain s1 loc1 np1 where
    b: "productBody w par imageryDate (prodId, arg) (s, loc, np) = Inr (s1, loc1, np1)"
    and l: "for_each (productBody w par imageryDate) ps (s1, loc1, np1) = Inr (s', loc', np')"
    by (auto simp: p split: sum.splits)
  note st = productBody_step[OF b]
  from Cons.prems(2) have d: "distinct (map fst ps)" and ni: "prodId \<notin> fst ` set ps"
    by (simp_all add: p)
  from Cons.prems(3) have nb: "\<not> mosaic_built s prodId" by (simp add: p)
  have "\<forall>p \<in> set ps. \<not> mosaic_built s1 (fst p)"
  proof
    fix x assume x: "x \<in> set ps"
    with ni have "fst x \<noteq> prodId" by force
    with st(1) have "mosaic_built s1 (fst x) = mosaic_built s (fst x)" by simp
    with Cons.prems(3) x show "\<not> mosaic_built s1 (fst x)" by simp
  qed
  from Cons.IH[OF l d this] have
    o: "\<forall>q. q \<notin> fst ` set ps \<longrightarrow> map_of np' q = map_of np1 q \<and> mosaic_built s' q = mosaic_built s1 q"
    and i: "\<forall>p \<in> set ps. \<exists>d. map_of np' (fst p) = Some d \<and> map_of d ''name'' = Some (prod_name (snd p))
             \<and> (map_of d ''newDate'' \<noteq> None) = mosaic_built s' (fst p)
             \<and> (map_of d ''newDate'' = None \<or> map_of d ''newDate'' = Some imageryDate)"
    by blast+
  from o ni have h: "map_of np' prodId = map_of np1 prodId" "mosaic_built s' prodId = mosaic_built s1 prodId"
    by simp_all
  from st(2)[OF nb] h have
    hd: "\<exists>d. map_of np' prodId = Some d \<and> map_of d ''name'' = Some (prod_name arg)
             \<and> (map_of d ''newDate'' \<noteq> None) = mosaic_built s' prodId
             \<and> (map_of d ''newDate'' = None \<or> map_of d ''newDate'' = Some imageryDate)"
    by simp
  have "\<forall>q. q \<notin> fst ` set (p # ps) \<longrightarrow> map_of np' q = map_of np q \<and> mosaic_built s' q = mosaic_built s q"
    using o st(1) by (simp add: p)
  with hd i show ?case by (simp add: p)
qed

text \<open>
  \<^bold>\<open>C10.\<close> When \<^verbatim>\<open>calculateProducts\<close> returns, the mapping it returns has, for every
  configured product, an entry under the id of the product that holds the name of the
  product; the entry has the field \<^verbatim>\<open>newDate\<close> if and only if the call of
  \<^verbatim>\<open>gdal.BuildVRT\<close> of this product has returned, and the field then holds the date of
  the imagery. A product that failed has an entry without the field.
\<close>

theorem returned_mapping_entries:
  assumes "calculateProducts w par imageryDate s = Inr (newProducts, s')"
      and "distinct (map fst (par_products par))"
      and "calls s = []"
      and "(prodId, arg) \<in> set (par_products par)"
  shows "\<exists>d. map_of newProducts prodId = Some d
           \<and> map_of d ''name'' = Some (prod_name arg)
           \<and> (map_of d ''newDate'' \<noteq> None) = mosaic_built s' prodId
           \<and> (map_of d ''newDate'' = None \<or> map_of d ''newDate'' = Some imageryDate)"
proof -
  from assms(1) obtain loc' where
    l: "for_each (productBody w par imageryDate) (par_products par)
          (s, \<lparr>v_requiredInputOutputPaths = None, v_outName = None, v_resultRaster = None\<rparr>, [])
        = Inr (s', loc', newProducts)"
    by (auto simp: calculateProducts_def split: sum.splits)
  from assms(3) have "\<forall>p \<in> set (par_products par). \<not> mosaic_built s (fst p)"
    by (simp add: mosaic_built_def)
  from productLoop_entries[OF l assms(2) this] assms(4) show ?thesis
    by force
qed

subsection \<open>The example world\<close>

lemmas ex_path_defs = path_join_def join2_def first_listed_def bandBody_def rawBandBody_def Let_def
  str_nat.simps ex_b04_def ex_b08_def

lemma ex_loop_ndvi:
  "safeFolderLoop ex_world (ex_args ex_ndvi) [''S2A.SAFE''] 0 [] lg = (Inr [(0, ex_entry_ndvi)], lg)"
  by (simp add: ex_world_def ex_args_def ex_ndvi_def ex_entry_ndvi_def ex_path_defs)

lemma ex_loop_evi:
  "safeFolderLoop ex_world (ex_args ex_evi) [''S2A.SAFE''] 0 [] lg = (Inr [(0, ex_entry_evi)], lg)"
  by (simp add: ex_world_def ex_args_def ex_evi_def ex_entry_evi_def ex_path_defs)

lemma ex_loop_ndwi:
  "safeFolderLoop ex_world (ex_args ex_ndwi) [''S2A.SAFE''] 0 [] lg = (Inr [(0, ex_entry_ndwi)], lg)"
  by (simp add: ex_world_def ex_args_def ex_ndwi_def ex_entry_ndwi_def ex_path_defs)

lemma ex_listdir_date:
  "listdir ex_world (path_join (ra_rawInput (ex_args p)) [ra_imageryDate (ex_args p)])
     = Some ([''S2A.SAFE''] @ ''S2B.SAFE'' # [])"
  by (simp add: ex_world_def ex_args_def path_join_def join2_def)

lemma ex_listdir_granule:
  "first_listed (listdir ex_world
     (path_join (path_join (ra_rawInput (ex_args p)) [ra_imageryDate (ex_args p)])
        [''S2B.SAFE'', ''GRANULE''])) = None"
  by (simp add: ex_world_def ex_args_def path_join_def join2_def first_listed_def)

lemma f32_2000: "f32 2000 = Fin 2000"
  by (simp add: f32_eval split del: if_split)

lemma f32_8000: "f32 8000 = Fin 8000"
  by (simp add: f32_eval split del: if_split)

lemma ex_open_b04: "openRasterOneBand ex_world (Str ex_b04) = Inr (ex_raster 2000)"
  by (simp add: openRasterOneBand_def ex_world_def ex_dataset_def ex_raster_def grid_map_def
      f32_2000 splitext_ext_def ex_b04_def ex_b08_def Let_def)

lemma ex_open_b08: "openRasterOneBand ex_world (Str ex_b08) = Inr (ex_raster 8000)"
  by (simp add: openRasterOneBand_def ex_world_def ex_dataset_def ex_raster_def grid_map_def
      f32_8000 splitext_ext_def ex_b04_def ex_b08_def Let_def)

lemma ex_world_oracles:
  "mem_create_fails ex_world g c r = False"
  "warp_fails ex_world dest mr cutline epsg = False"
  "buildvrt_fails ex_world p ts = False"
  "makedirs_fails ex_world p = (p = ''out/20200101/NDWI'')"
  by (simp_all add: ex_world_def)

lemma ex_calc_ndvi: "calculateNDVI [[Fin 8000]] [[Fin 2000]] = Inr [[Fin (5033165 / 8388608)]]"
  using calculateNDVI_8000_2000[of 1 1] by simp

lemma ex_branch_ndvi:
  "branchNDVI ex_world ex_entry_ndvi s
     = Go (s\<lparr>calls := calls s @ [(OpenBand (Str ex_b04), True), (OpenBand (Str ex_b08), True),
                                 (Calc ''NDVI'', True), (MemRaster, True)]\<rparr>) ex_result"
  by (simp add: branchNDVI_def ctl_bind_def tryOpen_def tryCalc_def tryMem_def ex_entry_ndvi_def
      ex_open_b04 ex_open_b08 ex_raster_def ex_calc_ndvi createMemoryRaster_def ex_world_oracles
      ex_result_def record_call_def)

lemma ex_tile_path_ndvi: "path_join ''out/20200101/NDVI'' [''T33_20200101T100031_NDVI_0.tif''] = ex_tile_ndvi"
  by (simp add: path_join_def join2_def ex_tile_ndvi_def)

lemma ex_tileBody_ndvi:
  "\<not> path_exists s ex_tile_ndvi \<Longrightarrow>
   tileBody ex_world (ex_params ps) ex_ndvi (tile, ex_entry_ndvi) (s, loc, tiles)
     = Inr (s\<lparr>calls := calls s @ ex_calls_ndvi, files := insert ex_tile_ndvi (files s)\<rparr>,
            loc\<lparr>v_outName := Some ''T33_20200101T100031_NDVI_0.tif'', v_resultRaster := Some ex_result\<rparr>,
            tiles @ [ex_tile_ndvi])"
  by (simp add: tileBody_def Let_def productBranch_def ex_branch_ndvi ctl_bind_def tryWarp_def
      record_call_def ex_calls_ndvi_def ex_world_oracles ex_tile_path_ndvi
      ex_entry_ndvi_def[THEN arg_cong, of pp_outFolder] ex_entry_ndvi_def[THEN arg_cong, of pp_outName]
      ex_ndvi_def[THEN arg_cong, of prod_name])

lemma ex_tile_path_evi: "path_join ''out/20200101/EVI'' [''T33_20200101T100031_EVI_0.tif''] = ex_tile_evi"
  by (simp add: path_join_def join2_def ex_tile_evi_def)

lemma ex_tile_path_ndwi: "path_join ''out/20200101/NDWI'' [''T33_20200101T100031_NDWI_0.tif''] = ex_tile_ndwi"
  by (simp add: path_join_def join2_def ex_tile_ndwi_def)

lemma ex_branch_evi:
  "branchEVI ex_world ex_entry_evi s
     = Continue (s\<lparr>calls := calls s @ ex_calls_evi,
                    errlog := errlog s @ [LogMsg ''Error while opening {}.'', LogExn TypeError]\<rparr>)"
  by (simp add: branchEVI_def ctl_bind_def tryOpen_def ex_entry_evi_def ex_open_b04 ex_open_b08
      record_call_def log_error_def ex_calls_evi_def)

lemma ex_branch_ndwi:
  "branchNDWI ex_world ex_entry_ndwi s
     = Continue (s\<lparr>calls := calls s @ [(OpenBand EmptyDict, False)],
                    errlog := errlog s @ [LogMsg ''Error while opening {}.'', LogExn TypeError]\<rparr>)"
  by (simp add: branchNDWI_def ctl_bind_def tryOpen_def ex_entry_ndwi_def
      record_call_def log_error_def)

lemma ex_tileBody_evi:
  "\<not> path_exists s ex_tile_evi \<Longrightarrow>
   tileBody ex_world (ex_params ps) ex_evi (tile, ex_entry_evi) (s, loc, tiles)
     = Inr (s\<lparr>calls := calls s @ ex_calls_evi,
              errlog := errlog s @ [LogMsg ''Error while opening {}.'', LogExn TypeError]\<rparr>,
            loc\<lparr>v_outName := Some ''T33_20200101T100031_EVI_0.tif''\<rparr>, tiles)"
  by (simp add: tileBody_def Let_def productBranch_def ex_branch_evi ctl_bind_def ex_tile_path_evi
      ex_entry_evi_def[THEN arg_cong, of pp_outFolder] ex_entry_evi_def[THEN arg_cong, of pp_outName]
      ex_evi_def[THEN arg_cong, of prod_name])

lemma ex_tileBody_ndwi:
  "\<not> path_exists s ex_tile_ndwi \<Longrightarrow>
   tileBody ex_world (ex_params ps) ex_ndwi (tile, ex_entry_ndwi) (s, loc, tiles)
     = Inr (s\<lparr>calls := calls s @ [(OpenBand EmptyDict, False)],
              errlog := errlog s @ [LogMsg ''Error while opening {}.'', LogExn TypeError]\<rparr>,
            loc\<lparr>v_outName := Some ''T33_20200101T100031_NDWI_0.tif''\<rparr>, tiles)"
  by (simp add: tileBody_def Let_def productBranch_def ex_branch_ndwi ctl_bind_def ex_tile_path_ndwi
      ex_entry_ndwi_def[THEN arg_cong, of pp_outFolder] ex_entry_ndwi_def[THEN arg_cong, of pp_outName]
      ex_ndwi_def[THEN arg_cong, of prod_name])

lemma ex_resolve:
  "getRequiredBandsPaths ex_world (ex_args ex_ndvi) s
     = (Inr [(0, ex_entry_ndvi)],
        log_error [LogMsg ''raw/20200101/S2B.SAFE/GRANULE is empty.'', LogMsg ''e''] s)"
  "getRequiredBandsPaths ex_world (ex_args ex_evi) s
     = (Inr [(0, ex_entry_evi)],
        log_error [LogMsg ''raw/20200101/S2B.SAFE/GRANULE is empty.'', LogMsg ''e''] s)"
  "getRequiredBandsPaths ex_world (ex_args ex_ndwi) s
     = (Inr [(0, ex_entry_ndwi)],
        log_error [LogMsg ''raw/20200101/S2B.SAFE/GRANULE is empty.'', LogMsg ''e''] s)"
  using safeFolderLoop_break[OF ex_listdir_granule ex_loop_ndvi[of "errlog s"], where post="[]"]
        safeFolderLoop_break[OF ex_listdir_granule ex_loop_evi[of "errlog s"], where post="[]"]
        safeFolderLoop_break[OF ex_listdir_granule ex_loop_ndwi[of "errlog s"], where post="[]"]
        ex_listdir_date
  by (simp_all add: getRequiredBandsPaths_def Let_def log_error_def ex_args_def path_join_def join2_def)

theorem path_failure_aborts_run:
  assumes "par_products par = (prodId, arg) # rest"
      and "listdir w (path_join (rawInput (par_script par)) [imageryDate]) = None"
  shows "calculateProducts w par imageryDate s = Inl (NameError ''requiredInputOutputPaths'')"
  using assms
  by (simp add: calculateProducts_def productBody_def getRequiredBandsPaths_def Let_def)

lemma ex_args_of:
  "\<lparr>ra_product = prod_name p, ra_imageryDate = ''20200101'', ra_requiredBands = prod_bands p,
    ra_rawInput = rawInput (par_script (ex_params ps)),
    ra_outFolder = productOutput (par_script (ex_params ps)),
    ra_resolution = prod_resolution p\<rparr> = ex_args p"
  by (simp add: ex_args_def ex_params_def)

lemma ex_mosaic_paths:
  "path_join (productOutput (par_script (ex_params ps))) [''20200101'', ''NDVI''] = ''out/20200101/NDVI''"
  "path_join (productOutput (par_script (ex_params ps))) [''20200101'', ''EVI''] = ''out/20200101/EVI''"
  "path_join (productOutput (par_script (ex_params ps))) [''20200101'', ''NDWI''] = ''out/20200101/NDWI''"
  "path_join ''out/20200101/NDVI'' [''20200101_NDVI.vrt''] = ex_mosaic_ndvi"
  "path_join ''out/20200101/EVI'' [''20200101_EVI.vrt''] = ex_mosaic_evi"
  by (simp_all add: path_join_def join2_def ex_params_def ex_mosaic_ndvi_def ex_mosaic_evi_def)

lemma ex_mosaic_evi_empty:
  "mosaicStage ex_world (ex_params ps) ''20200101'' ''2'' ex_evi []
     (s, loc\<lparr>v_outName := Some ''T33_20200101T100031_EVI_0.tif''\<rparr>, [(''2'', [(''name'', ''EVI'')])])
   = Inr (s\<lparr>dirs := insert ''out/20200101/EVI'' (dirs s),
            calls := calls s @ [(BuildVRT ''2'' ex_mosaic_evi [], True)],
            files := insert ex_mosaic_evi (files s)\<rparr>,
          loc\<lparr>v_outName := Some ''T33_20200101T100031_EVI_0.tif''\<rparr>,
          [(''2'', [(''name'', ''EVI''), (''newDate'', ''20200101'')])])"
  by (simp add: mosaicStage_def Let_def ex_evi_def[THEN arg_cong, of prod_name] ex_mosaic_paths
      createOutFolder_def ex_world_oracles record_call_def insert_absorb)

lemma ex_run_evi_eval:
  "calculateProducts ex_world (ex_params [(''2'', ex_evi)]) ''20200101'' ex_sys
     = Inr ([(''2'', [(''name'', ''EVI''), (''newDate'', ''20200101'')])], ex_run_evi)"
  by (simp add: calculateProducts_def productBody_def Let_def ex_args_of ex_resolve
        ex_params_def[THEN arg_cong, of par_products]
        folderBody_def ex_entry_evi_def[THEN arg_cong, of pp_outFolder]
        createOutFolder_def ex_world_oracles log_error_def
        ex_tileBody_evi path_exists_def ex_sys_def ex_tile_evi_def
        ex_evi_def[THEN arg_cong, of prod_name]
        ex_mosaic_evi_empty[where loc = "\<lparr>v_requiredInputOutputPaths = Some [(0, ex_entry_evi)], v_outName = None, v_resultRaster = None\<rparr>", simplified]
        ex_run_evi_def ex_granule_log_def)

lemma ex_mosaic_ndvi_one:
  "''out/20200101/NDVI'' \<in> dirs s \<Longrightarrow>
   mosaicStage ex_world (ex_params ps) ''20200101'' ''1'' ex_ndvi [ex_tile_ndvi]
     (s, loc\<lparr>v_outName := Some ''T33_20200101T100031_NDVI_0.tif''\<rparr>, [(''1'', [(''name'', ''NDVI'')])])
   = Inr (s\<lparr>calls := calls s @ [(BuildVRT ''1'' ex_mosaic_ndvi [ex_tile_ndvi], True)],
            files := insert ex_mosaic_ndvi (files s)\<rparr>,
          loc\<lparr>v_outName := Some ''T33_20200101T100031_NDVI_0.tif''\<rparr>,
          [(''1'', [(''name'', ''NDVI''), (''newDate'', ''20200101'')])])"
  by (simp add: mosaicStage_def Let_def ex_ndvi_def[THEN arg_cong, of prod_name] ex_mosaic_paths
      createOutFolder_def ex_world_oracles record_call_def)

lemma ex_paths_distinct:
  "ex_tile_ndvi \<noteq> ''out/20200101/NDVI''" "ex_tile_ndvi \<noteq> ex_mosaic_ndvi"
  "ex_tile_ndwi \<noteq> ''out/20200101/NDVI''" "ex_tile_ndwi \<noteq> ex_mosaic_ndvi"
  "ex_tile_ndwi \<noteq> ex_tile_ndvi" "''out/20200101/NDWI'' \<noteq> ''out/20200101/NDVI''"
  by (simp_all add: ex_tile_ndvi_def ex_tile_ndwi_def ex_mosaic_ndvi_def)

lemma ex_body_ndvi:
  "productBody ex_world (ex_params ps) ''20200101'' (''1'', ex_ndvi) (ex_sys, ex_locals, [])
     = Inr (\<lparr>files = {ex_tile_ndvi, ex_mosaic_ndvi}, dirs = {''out/20200101/NDVI''},
             errlog = ex_granule_log,
             calls = ex_calls_ndvi @ [(BuildVRT ''1'' ex_mosaic_ndvi [ex_tile_ndvi], True)]\<rparr>,
            \<lparr>v_requiredInputOutputPaths = Some [(0, ex_entry_ndvi)],
             v_outName = Some ''T33_20200101T100031_NDVI_0.tif'',
             v_resultRaster = Some ex_result\<rparr>,
            [(''1'', [(''name'', ''NDVI''), (''newDate'', ''20200101'')])])"
  by (simp add: productBody_def Let_def ex_args_of ex_resolve
        folderBody_def ex_entry_ndvi_def[THEN arg_cong, of pp_outFolder]
        createOutFolder_def ex_world_oracles log_error_def
        ex_tileBody_ndvi path_exists_def ex_sys_def ex_locals_def ex_paths_distinct
        ex_ndvi_def[THEN arg_cong, of prod_name]
        ex_mosaic_ndvi_one[where loc = "\<lparr>v_requiredInputOutputPaths = Some [(0, ex_entry_ndvi)], v_outName = None, v_resultRaster = Some ex_result\<rparr>", simplified]
        ex_granule_log_def insert_commute)

lemma ex_mosaic_ndwi_fails:
  "''out/20200101/NDWI'' \<notin> dirs s \<Longrightarrow>
   mosaicStage ex_world (ex_params ps) ''20200101'' ''3'' ex_ndwi []
     (s, loc\<lparr>v_outName := Some ''T33_20200101T100031_NDWI_0.tif''\<rparr>, np)
   = Inr (s\<lparr>errlog := errlog s @ [LogMsg ''Error while creating out/20200101/NDWI.'',
                                     LogExn (OSError ''out/20200101/NDWI'')]\<rparr>,
          loc\<lparr>v_outName := Some ''T33_20200101T100031_NDWI_0.tif''\<rparr>, np)"
  by (simp add: mosaicStage_def Let_def ex_ndwi_def[THEN arg_cong, of prod_name] ex_mosaic_paths
      createOutFolder_def ex_world_oracles log_error_def)

lemma ex_body_ndwi:
  "productBody ex_world (ex_params ps) ''20200101'' (''3'', ex_ndwi)
     (\<lparr>files = {ex_tile_ndvi, ex_mosaic_ndvi}, dirs = {''out/20200101/NDVI''},
       errlog = ex_granule_log,
       calls = ex_calls_ndvi @ [(BuildVRT ''1'' ex_mosaic_ndvi [ex_tile_ndvi], True)]\<rparr>,
      \<lparr>v_requiredInputOutputPaths = Some [(0, ex_entry_ndvi)],
       v_outName = Some ''T33_20200101T100031_NDVI_0.tif'',
       v_resultRaster = Some ex_result\<rparr>,
      [(''1'', [(''name'', ''NDVI''), (''newDate'', ''20200101'')])])
     = Inr (ex_run_ndvi_ndwi,
            \<lparr>v_requiredInputOutputPaths = Some [(0, ex_entry_ndwi)],
             v_outName = Some ''T33_20200101T100031_NDWI_0.tif'',
             v_resultRaster = Some ex_result\<rparr>,
            [(''1'', [(''name'', ''NDVI''), (''newDate'', ''20200101'')]), (''3'', [(''name'', ''NDWI'')])])"
  by (simp add: productBody_def Let_def ex_args_of ex_resolve
        folderBody_def ex_entry_ndwi_def[THEN arg_cong, of pp_outFolder]
        createOutFolder_def ex_world_oracles log_error_def
        ex_tileBody_ndwi path_exists_def ex_paths_distinct
        ex_ndwi_def[THEN arg_cong, of prod_name]
        ex_mosaic_ndwi_fails[where loc = "\<lparr>v_requiredInputOutputPaths = Some [(0, ex_entry_ndwi)], v_outName = None, v_resultRaster = Some ex_result\<rparr>", simplified]
        ex_run_ndvi_ndwi_def ex_granule_log_def)

lemma ex_run_ndvi_ndwi_eval:
  "calculateProducts ex_world (ex_params [(''1'', ex_ndvi), (''3'', ex_ndwi)]) ''20200101'' ex_sys
     = Inr ([(''1'', [(''name'', ''NDVI''), (''newDate'', ''20200101'')]), (''3'', [(''name'', ''NDWI'')])],
            ex_run_ndvi_ndwi)"
  by (simp add: calculateProducts_def ex_params_def[THEN arg_cong, of par_products]
      ex_body_ndvi[unfolded ex_locals_def] ex_body_ndwi)

lemma ex_tileBody_ndvi_first:
  "tileBody ex_world (ex_params ps) ex_ndvi (0, ex_entry_ndvi) (ex_sys, ex_locals, [])
     = Inr (ex_sys_ndvi, ex_locals_ndvi, [ex_tile_ndvi])"
  by (simp add: ex_tileBody_ndvi path_exists_def ex_sys_def ex_sys_ndvi_def ex_locals_def
      ex_locals_ndvi_def)

text \<open>
  The cache hit in the example world: after the first run of the tile body has written
  the NDVI tile, a run of the body finds the file and returns the system as it is, with
  the path of the tile in the list.
\<close>

theorem cache_hit_skips_pipeline_witness:
  "pp_outFolder ex_entry_ndvi = Some ''out/20200101/NDVI''
   \<and> pp_outName ex_entry_ndvi = Some ''T33_20200101T100031_NDVI_0.tif''
   \<and> path_exists ex_sys_ndvi ex_tile_ndvi
   \<and> tileBody ex_world (ex_params []) ex_ndvi (0, ex_entry_ndvi) (ex_sys_ndvi, ex_locals, [])
        = Inr (ex_sys_ndvi, ex_locals\<lparr>v_outName := Some ''T33_20200101T100031_NDVI_0.tif''\<rparr>,
               [ex_tile_ndvi])
   \<and> tileBody ex_world (ex_params []) ex_ndvi (0, ex_entry_ndvi) (ex_sys, ex_locals, [])
        = Inr (ex_sys_ndvi, ex_locals_ndvi, [ex_tile_ndvi])
   \<and> tileBody ex_world (ex_params []) ex_ndvi (0, ex_entry_ndvi) (ex_sys_ndvi, ex_locals_ndvi, [])
        = Inr (ex_sys_ndvi, ex_locals_ndvi, [ex_tile_ndvi])"
proof -
  have f: "pp_outFolder ex_entry_ndvi = Some ''out/20200101/NDVI''"
    and n: "pp_outName ex_entry_ndvi = Some ''T33_20200101T100031_NDVI_0.tif''"
    by (simp_all add: ex_entry_ndvi_def)
  have x: "path_exists ex_sys_ndvi ex_tile_ndvi"
    by (simp add: path_exists_def ex_sys_ndvi_def)
  note r = ex_tileBody_ndvi_first[of "[]"]
  from cache_hit_skips_pipeline
    [where e = ex_entry_ndvi and s = ex_sys_ndvi and w = ex_world and par = "ex_params []"
       and arg = ex_ndvi and tile = 0 and loc = ex_locals and tiles = "[]"
       and sa = ex_sys and loca = ex_locals and tilesa = "[]" and sb = ex_sys_ndvi
       and locb = ex_locals_ndvi and dest = ex_tile_ndvi and tilesb = "[]", OF f n]
    x r
  have "tileBody ex_world (ex_params []) ex_ndvi (0, ex_entry_ndvi) (ex_sys_ndvi, ex_locals, [])
          = Inr (ex_sys_ndvi, ex_locals\<lparr>v_outName := Some ''T33_20200101T100031_NDVI_0.tif''\<rparr>,
                 [ex_tile_ndvi])"
    and "tileBody ex_world (ex_params []) ex_ndvi (0, ex_entry_ndvi) (ex_sys_ndvi, ex_locals_ndvi, [])
          = Inr (ex_sys_ndvi, ex_locals_ndvi, [ex_tile_ndvi])"
    by (simp_all add: ex_tile_path_ndvi)
  with f n x r show ?thesis by simp
qed



text \<open>
  \<^bold>\<open>C4.\<close> \<^verbatim>\<open>calculateProducts\<close> does not always return. When the folder of the date cannot
  be listed, \<^verbatim>\<open>getRequiredBandsPaths\<close> raises; the handler around the call logs the error
  and, unlike the handlers of the tile loop, has no \<^verbatim>\<open>continue\<close>. The statement that
  follows reads \<^verbatim>\<open>requiredInputOutputPaths\<close>, which no iteration has bound yet, and the
  \<open>NameError\<close>, which no handler catches, ends the run before any product is calculated.
  In the example world nothing was downloaded for the date 20200102.
\<close>

theorem date_without_folder_aborts_run:
  "listdir ex_world ''raw/20200102'' = None
   \<and> calculateProducts ex_world (ex_params ex_products) ''20200102'' ex_sys
        = Inl (NameError ''requiredInputOutputPaths'')"
proof -
  have l: "listdir ex_world (path_join (rawInput (par_script (ex_params ex_products))) [''20200102'']) = None"
    by (simp add: ex_world_def ex_params_def path_join_def join2_def)
  have p: "par_products (ex_params ex_products) = (''1'', ex_ndvi) # [(''3'', ex_ndwi)]"
    by (simp add: ex_params_def ex_products_def)
  from path_failure_aborts_run[OF p l] l show ?thesis
    by (simp add: ex_params_def path_join_def join2_def)
qed



text \<open>
  The mosaic stage of the product EVI in the example world, with no tile.
\<close>

theorem empty_tile_list_still_builds_witness:
  "v_outName (ex_locals\<lparr>v_outName := Some ''T33_20200101T100031_EVI_0.tif''\<rparr>)
     = Some ''T33_20200101T100031_EVI_0.tif''
   \<and> 3 \<le> length (split_on CHR ''_'' ''T33_20200101T100031_EVI_0.tif'')
   \<and> map_of [(''2'', [(''name'', ''EVI'')])] ''2'' = Some [(''name'', ''EVI'')]
   \<and> ''out/20200101/EVI'' \<notin> dirs ex_sys
   \<and> \<not> makedirs_fails ex_world ''out/20200101/EVI''
   \<and> \<not> buildvrt_fails ex_world ex_mosaic_evi []
   \<and> (\<exists>s'. mosaicStage ex_world (ex_params [(''2'', ex_evi)]) ''20200101'' ''2'' ex_evi []
                (ex_sys, ex_locals\<lparr>v_outName := Some ''T33_20200101T100031_EVI_0.tif''\<rparr>,
                 [(''2'', [(''name'', ''EVI'')])])
              = Inr (s', ex_locals\<lparr>v_outName := Some ''T33_20200101T100031_EVI_0.tif''\<rparr>,
                     [(''2'', [(''name'', ''EVI''), (''newDate'', ''20200101'')])])
          \<and> calls s' = calls ex_sys @ [(BuildVRT ''2'' ex_mosaic_evi [], True)]
          \<and> errlog s' = errlog ex_sys)"
proof -
  have o: "v_outName (ex_locals\<lparr>v_outName := Some ''T33_20200101T100031_EVI_0.tif''\<rparr>)
     = Some ''T33_20200101T100031_EVI_0.tif''"
    by simp
  have l: "3 \<le> length (split_on CHR ''_'' ''T33_20200101T100031_EVI_0.tif'')"
    by simp
  have m: "map_of [(''2'', [(''name'', ''EVI'')])] ''2'' = Some [(''name'', ''EVI'')]"
    by simp
  have mf: "''out/20200101/EVI''
      = path_join (productOutput (par_script (ex_params [(''2'', ex_evi)]))) [''20200101'', prod_name ex_evi]"
    by (simp add: ex_evi_def ex_mosaic_paths)
  have mp: "ex_mosaic_evi = path_join ''out/20200101/EVI''
      [take 8 (split_on CHR ''_'' ''T33_20200101T100031_EVI_0.tif'' ! 1) @ ''_''
         @ split_on CHR ''_'' ''T33_20200101T100031_EVI_0.tif'' ! 2 @ ''.vrt'']"
    by (simp add: ex_mosaic_evi_def path_join_def join2_def)
  have d: "''out/20200101/EVI'' \<notin> dirs ex_sys"
    by (simp add: ex_sys_def)
  have w: "\<not> makedirs_fails ex_world ''out/20200101/EVI''" "\<not> buildvrt_fails ex_world ex_mosaic_evi []"
    by (simp_all add: ex_world_oracles)
  from empty_tile_list_still_builds
         [where w = ex_world and prodId = "''2''" and s = ex_sys and imageryDate = "''20200101''"
            and arg = ex_evi and par = "ex_params [(''2'', ex_evi)]", OF o l m mf mp] d w
  have "\<exists>s'. mosaicStage ex_world (ex_params [(''2'', ex_evi)]) ''20200101'' ''2'' ex_evi []
                (ex_sys, ex_locals\<lparr>v_outName := Some ''T33_20200101T100031_EVI_0.tif''\<rparr>,
                 [(''2'', [(''name'', ''EVI'')])])
              = Inr (s', ex_locals\<lparr>v_outName := Some ''T33_20200101T100031_EVI_0.tif''\<rparr>,
                     [(''2'', [(''name'', ''EVI''), (''newDate'', ''20200101'')])])
          \<and> calls s' = calls ex_sys @ [(BuildVRT ''2'' ex_mosaic_evi [], True)]
          \<and> errlog s' = errlog ex_sys"
    by auto
  with o l m d w show ?thesis by blast
qed

text \<open>
  The run for the product EVI alone in the example world: its only tile fails, the list
  of tiles is empty, and still \<^verbatim>\<open>gdal.BuildVRT\<close> is called (with the empty list), the
  mosaic file is written, nothing about the mosaic is logged, and the product gets its
  \<^verbatim>\<open>newDate\<close>.
\<close>

theorem mosaic_is_built_from_no_tiles:
  "calculateProducts ex_world (ex_params [(''2'', ex_evi)]) ''20200101'' ex_sys
     = Inr ([(''2'', [(''name'', ''EVI''), (''newDate'', ''20200101'')])], ex_run_evi)
   \<and> calls ex_run_evi = ex_calls_evi @ [(BuildVRT ''2'' ex_mosaic_evi [], True)]
   \<and> errlog ex_run_evi = ex_granule_log @ [LogMsg ''Error while opening {}.'', LogExn TypeError]
   \<and> ex_mosaic_evi \<in> files ex_run_evi"
  by (simp add: ex_run_evi_eval ex_run_evi_def)





text \<open>
  The run for the products NDVI and NDWI in the example world: the mosaic of NDVI is
  built, the folder of NDWI cannot be created. Both have an entry, only that of NDVI has
  the field \<^verbatim>\<open>newDate\<close>.
\<close>

theorem returned_mapping_entries_witness:
  "calculateProducts ex_world (ex_params ex_products) ''20200101'' ex_sys
     = Inr ([(''1'', [(''name'', ''NDVI''), (''newDate'', ''20200101'')]), (''3'', [(''name'', ''NDWI'')])],
            ex_run_ndvi_ndwi)
   \<and> distinct (map fst (par_products (ex_params ex_products)))
   \<and> calls ex_sys = []
   \<and> par_products (ex_params ex_products) = [(''1'', ex_ndvi), (''3'', ex_ndwi)]
   \<and> mosaic_built ex_run_ndvi_ndwi ''1''
   \<and> \<not> mosaic_built ex_run_ndvi_ndwi ''3''"
proof -
  have r: "calculateProducts ex_world (ex_params ex_products) ''20200101'' ex_sys
     = Inr ([(''1'', [(''name'', ''NDVI''), (''newDate'', ''20200101'')]), (''3'', [(''name'', ''NDWI'')])],
            ex_run_ndvi_ndwi)"
    by (simp add: ex_products_def ex_run_ndvi_ndwi_eval)
  have p: "par_products (ex_params ex_products) = [(''1'', ex_ndvi), (''3'', ex_ndwi)]"
    by (simp add: ex_params_def ex_products_def)
  have d: "distinct (map fst (par_products (ex_params ex_products)))"
    by (simp add: p)
  have c: "calls ex_sys = []"
    by (simp add: ex_sys_def)
  have "(''1'', ex_ndvi) \<in> set (par_products (ex_params ex_products))"
    by (simp add: p)
  from returned_mapping_entries[OF r d c this]
  have b1: "mosaic_built ex_run_ndvi_ndwi ''1''" by simp
  have "(''3'', ex_ndwi) \<in> set (par_products (ex_params ex_products))"
    by (simp add: p)
  from returned_mapping_entries[OF r d c this]
  have b3: "\<not> mosaic_built ex_run_ndvi_ndwi ''3''" by simp
  from r p d c b1 b3 show ?thesis by simp
qed

end
